theory Spec2Isabelle
  imports Complex_Main
begin

section \<open>Python values shared by both services\<close>

text \<open>
  The two services (\<^verbatim>\<open>detect/plate_detection_service.py\<close> and
  \<^verbatim>\<open>cin/cin_extraction_service.py\<close>) compute with Python and NumPy floats. In this
  development a float is a \<^typ>\<open>real\<close>: comparisons, truncation and the order of the
  operations are those of the source, rounding error of the machine format is not modelled.
  Integers are \<^typ>\<open>int\<close>, strings are \<^typ>\<open>string\<close>.
\<close>

datatype exc_kind = ValueErrorKind | RuntimeErrorKind | OtherKind

text \<open>An exception: the class it matches in an \<^verbatim>\<open>except\<close> clause, the name of its type
  and its text.\<close>

record py_exception =
  kind :: exc_kind
  type_name :: string
  text_of :: string

definition ZeroDivisionError :: py_exception where
  "ZeroDivisionError =
     \<lparr>kind = OtherKind, type_name = ''ZeroDivisionError'', text_of = ''division by zero''\<rparr>"

definition IndexError :: py_exception where
  "IndexError =
     \<lparr>kind = OtherKind, type_name = ''IndexError'', text_of = ''index out of bounds''\<rparr>"

text \<open>Sequencing of a computation that may raise.\<close>

definition bind_exc :: "py_exception + 'a \<Rightarrow> ('a \<Rightarrow> py_exception + 'b) \<Rightarrow> py_exception + 'b" where
  "bind_exc r f = (case r of Inl e \<Rightarrow> Inl e | Inr v \<Rightarrow> f v)"

text \<open>\<^verbatim>\<open>a / b\<close> on Python numbers: raises on a zero divisor.\<close>

definition py_truediv :: "real \<Rightarrow> real \<Rightarrow> py_exception + real" where
  "py_truediv a b = (if b = 0 then Inl ZeroDivisionError else Inr (a / b))"

text \<open>\<^verbatim>\<open>int(x)\<close> on a float truncates towards zero.\<close>

definition py_int :: "real \<Rightarrow> int" where
  "py_int x = (if 0 \<le> x then \<lfloor>x\<rfloor> else \<lceil>x\<rceil>)"

text \<open>\<^verbatim>\<open>round(x)\<close> on a float rounds to the nearest integer, a tie to the even one.\<close>

definition py_round :: "real \<Rightarrow> int" where
  "py_round x =
     (let f = \<lfloor>x\<rfloor>; d = x - of_int f
      in if d < 1 / 2 then f else if 1 / 2 < d then f + 1 else if even f then f else f + 1)"

text \<open>\<^verbatim>\<open>str(n)\<close> for an integer.\<close>

definition digit_char :: "nat \<Rightarrow> char" where
  "digit_char d = ''0123456789'' ! d"

fun nat_digits :: "nat \<Rightarrow> string" where
  "nat_digits n =
     (if n < 10 then [digit_char n] else nat_digits (n div 10) @ [digit_char (n mod 10)])"

declare nat_digits.simps [simp del]

definition py_str_int :: "int \<Rightarrow> string" where
  "py_str_int i = (if i < 0 then ''-'' @ nat_digits (nat (- i)) else nat_digits (nat i))"

text \<open>\<^verbatim>\<open>sub in s\<close> on strings.\<close>

fun starts_with :: "string \<Rightarrow> string \<Rightarrow> bool" where
  "starts_with [] s = True"
| "starts_with (c # cs) [] = False"
| "starts_with (c # cs) (d # ds) = (c = d \<and> starts_with cs ds)"

fun py_in :: "string \<Rightarrow> string \<Rightarrow> bool" where
  "py_in sub [] = (sub = [])"
| "py_in sub (d # ds) = (starts_with sub (d # ds) \<or> py_in sub ds)"

text \<open>\<^verbatim>\<open>s.strip()\<close> removes the whitespace of Python at both ends. A character of a
  \<^typ>\<open>string\<close> is a code point below 256; among these \<^verbatim>\<open>str.isspace\<close> holds for the
  tabulator to the carriage return, the four separators from \<open>0x1C\<close> to \<open>0x1F\<close>, the space,
  the next-line character \<open>0x85\<close> and the no-break space \<open>0xA0\<close>.\<close>

definition is_space :: "char \<Rightarrow> bool" where
  "is_space c =
     (c \<in> set [CHR 0x09, CHR 0x0A, CHR 0x0B, CHR 0x0C, CHR 0x0D,
                CHR 0x1C, CHR 0x1D, CHR 0x1E, CHR 0x1F, CHR 0x20, CHR 0x85, CHR 0xA0])"

definition py_strip :: "string \<Rightarrow> string" where
  "py_strip s = rev (dropWhile is_space (rev (dropWhile is_space s)))"

text \<open>\<^verbatim>\<open>xs[lo:hi]\<close>: a negative bound counts from the end, every bound is cut to the
  length.\<close>

definition slice_bound :: "int \<Rightarrow> nat \<Rightarrow> nat" where
  "slice_bound i n = (if i < 0 then nat (max 0 (i + int n)) else min (nat i) n)"

definition py_slice :: "int \<Rightarrow> int \<Rightarrow> 'a list \<Rightarrow> 'a list" where
  "py_slice lo hi xs =
     (let l = slice_bound lo (length xs); h = slice_bound hi (length xs)
      in take (h - l) (drop l xs))"

section \<open>Frames\<close>

text \<open>A decoded image is its rows of pixels; a colour image has three channels, so
  \<^verbatim>\<open>image.size\<close> is rows times columns times three.\<close>

type_synonym 'px frame = "'px list list"

definition frame_height :: "'px frame \<Rightarrow> nat" where
  "frame_height img = length img"

definition frame_width :: "'px frame \<Rightarrow> nat" where
  "frame_width img = (case img of [] \<Rightarrow> 0 | r # _ \<Rightarrow> length r)"

definition frame_size :: "'px frame \<Rightarrow> nat" where
  "frame_size img = frame_height img * frame_width img * 3"

text \<open>\<^verbatim>\<open>image[y1:y2, x1:x2]\<close>\<close>

definition crop :: "'px frame \<Rightarrow> int \<Rightarrow> int \<Rightarrow> int \<Rightarrow> int \<Rightarrow> 'px frame" where
  "crop img y1 y2 x1 x2 = map (py_slice x1 x2) (py_slice y1 y2 img)"

text \<open>The crop at a box \<open>(x_min, y_min, x_max, y_max)\<close>.\<close>

definition crop_box :: "'px frame \<Rightarrow> int \<times> int \<times> int \<times> int \<Rightarrow> 'px frame" where
  "crop_box img b = (case b of (x_min, y_min, x_max, y_max) \<Rightarrow> crop img y_min y_max x_min x_max)"

section \<open>Coordinate mapping of the plate service\<close>

text \<open>\<^verbatim>\<open>scaling_meta\<close> as \<^verbatim>\<open>preprocess_image_car\<close> builds it.\<close>

record scaling_meta =
  original_height :: int
  original_width :: int
  scale :: real
  pad_top :: int
  pad_left :: int

text \<open>\<^verbatim>\<open>scaling_meta\<close> as \<^verbatim>\<open>preprocess_image_plate\<close> builds it; the key
  \<^verbatim>\<open>'scale'\<close> is the field \<open>plate_scale\<close>.\<close>

record scaling_meta_plate =
  original_h :: int
  original_w :: int
  plate_scale :: real
  top_pad :: int
  left_pad :: int

type_synonym box = "int \<times> int \<times> int \<times> int"

definition cv2_error :: py_exception where
  "cv2_error = \<lparr>kind = OtherKind, type_name = ''error'', text_of = ''OpenCV assertion failed''\<rparr>"

definition broadcast_error :: py_exception where
  "broadcast_error =
     \<lparr>kind = ValueErrorKind, type_name = ''ValueError'', text_of = ''could not broadcast input array''\<rparr>"

text \<open>
  \<^verbatim>\<open>preprocess_image_car\<close>, the part that computes \<^verbatim>\<open>scaling_meta\<close> from the shape of
  the image (the blob itself is the detector's input and is not modelled). The divisions are
  on Python integers and raise on a zero dimension; \<^verbatim>\<open>cv2.resize\<close> refuses an empty target
  size; the assignment into the padded image fails when the resized image does not fit.
\<close>

definition preprocess_image_car :: "nat \<Rightarrow> nat \<Rightarrow> int \<Rightarrow> int \<Rightarrow> py_exception + scaling_meta" where
  "preprocess_image_car img_h img_w target_height target_width =
     bind_exc (py_truediv (of_int target_height) (of_nat img_h)) (\<lambda>scale_h.
     bind_exc (py_truediv (of_int target_width) (of_nat img_w)) (\<lambda>scale_w.
       let scale = min scale_h scale_w;
           new_height = py_round (of_nat img_h * scale);
           new_width = py_round (of_nat img_w * scale)
       in if new_height \<le> 0 \<or> new_width \<le> 0 then Inl cv2_error
          else let pad_top = (target_height - new_height) div 2;
                   pad_left = (target_width - new_width) div 2
               in if pad_top < 0 \<or> pad_left < 0 then Inl broadcast_error
                  else Inr \<lparr>original_height = int img_h, original_width = int img_w,
                            scale = scale, pad_top = pad_top, pad_left = pad_left\<rparr>))"

text \<open>The function \<^verbatim>\<open>scale_coords_car\<close> at module level (lines 86 to 119).\<close>

definition scale_coords_car :: "real \<times> real \<times> real \<times> real \<Rightarrow> scaling_meta \<Rightarrow> py_exception + box" where
  "scale_coords_car coords m =
     (case coords of (x_min, y_min, x_max, y_max) \<Rightarrow>
        let orig_h = real_of_int (original_height m);
            orig_w = real_of_int (original_width m);
            x_min_unpad = x_min - of_int (pad_left m);
            y_min_unpad = y_min - of_int (pad_top m);
            x_max_unpad = x_max - of_int (pad_left m);
            y_max_unpad = y_max - of_int (pad_top m)
        in if scale m = 0 then Inr (0, 0, 0, 0)
           else
             bind_exc (py_truediv x_min_unpad (scale m)) (\<lambda>orig_x_min.
             bind_exc (py_truediv y_min_unpad (scale m)) (\<lambda>orig_y_min.
             bind_exc (py_truediv x_max_unpad (scale m)) (\<lambda>orig_x_max.
             bind_exc (py_truediv y_max_unpad (scale m)) (\<lambda>orig_y_max.
               Inr (py_int (max 0 (min orig_x_min orig_w)),
                    py_int (max 0 (min orig_y_min orig_h)),
                    py_int (max 0 (min orig_x_max orig_w)),
                    py_int (max 0 (min orig_y_max orig_h))))))))"

text \<open>The method \<^verbatim>\<open>PlateDetectionServicer.scale_coords_car\<close> (lines 330 to 357).\<close>

definition servicer_scale_coords_car :: "real \<times> real \<times> real \<times> real \<Rightarrow> scaling_meta \<Rightarrow> py_exception + box" where
  "servicer_scale_coords_car box_raw m =
     (case box_raw of (b0, b1, b2, b3) \<Rightarrow>
        let box_pad_x_min = b0 - of_int (pad_left m);
            box_pad_y_min = b1 - of_int (pad_top m);
            box_pad_x_max = b2 - of_int (pad_left m);
            box_pad_y_max = b3 - of_int (pad_top m)
        in if scale m = 0 then Inr (0, 0, 0, 0)
           else
             bind_exc (py_truediv box_pad_x_min (scale m)) (\<lambda>qx_min.
             bind_exc (py_truediv box_pad_y_min (scale m)) (\<lambda>qy_min.
             bind_exc (py_truediv box_pad_x_max (scale m)) (\<lambda>qx_max.
             bind_exc (py_truediv box_pad_y_max (scale m)) (\<lambda>qy_max.
               Inr (max 0 (py_int qx_min),
                    max 0 (py_int qy_min),
                    min (original_width m) (py_int qx_max),
                    min (original_height m) (py_int qy_max)))))))"

text \<open>The method \<^verbatim>\<open>PlateDetectionServicer.scale_coords_plate\<close> (lines 421 to 449).\<close>

definition scale_coords_plate :: "real \<times> real \<times> real \<times> real \<Rightarrow> scaling_meta_plate \<Rightarrow> py_exception + box" where
  "scale_coords_plate coords_padded m =
     (case coords_padded of (x_min, y_min, x_max, y_max) \<Rightarrow>
        let x_min_unpad = x_min - of_int (left_pad m);
            y_min_unpad = y_min - of_int (top_pad m);
            x_max_unpad = x_max - of_int (left_pad m);
            y_max_unpad = y_max - of_int (top_pad m)
        in if plate_scale m = 0 then Inr (0, 0, 0, 0)
           else
             bind_exc (py_truediv x_min_unpad (plate_scale m)) (\<lambda>orig_x_min.
             bind_exc (py_truediv y_min_unpad (plate_scale m)) (\<lambda>orig_y_min.
             bind_exc (py_truediv x_max_unpad (plate_scale m)) (\<lambda>orig_x_max.
             bind_exc (py_truediv y_max_unpad (plate_scale m)) (\<lambda>orig_y_max.
               Inr (max 0 (py_int orig_x_min),
                    max 0 (py_int orig_y_min),
                    min (original_w m) (py_int orig_x_max),
                    min (original_h m) (py_int orig_y_max)))))))"

text \<open>
  Modelled from the spec: \<open>toModelSpace\<close>. The repository has no function that maps a box
  forward; the spec names the mapping and describes its inverse as "subtract pad offset,
  divide by scale", and the letterbox of \<^verbatim>\<open>preprocess_image_car\<close> places the resized image
  at the pad offsets. The forward mapping therefore multiplies by the scale and adds the
  pad offsets.
\<close>

definition to_model_space :: "box \<Rightarrow> scaling_meta \<Rightarrow> real \<times> real \<times> real \<times> real" where
  "to_model_space b m =
     (case b of (x_min, y_min, x_max, y_max) \<Rightarrow>
        (of_int x_min * scale m + of_int (pad_left m),
         of_int y_min * scale m + of_int (pad_top m),
         of_int x_max * scale m + of_int (pad_left m),
         of_int y_max * scale m + of_int (pad_top m)))"

text \<open>The padded-content region of a context: the part of the padded image that the resized
  original covers.\<close>

definition in_content_region :: "scaling_meta \<Rightarrow> real \<times> real \<times> real \<times> real \<Rightarrow> bool" where
  "in_content_region m b =
     (case b of (x_min, y_min, x_max, y_max) \<Rightarrow>
        of_int (pad_left m) \<le> x_min \<and>
        x_min \<le> of_int (pad_left m) + of_int (original_width m) * scale m \<and>
        of_int (pad_left m) \<le> x_max \<and>
        x_max \<le> of_int (pad_left m) + of_int (original_width m) * scale m \<and>
        of_int (pad_top m) \<le> y_min \<and>
        y_min \<le> of_int (pad_top m) + of_int (original_height m) * scale m \<and>
        of_int (pad_top m) \<le> y_max \<and>
        y_max \<le> of_int (pad_top m) + of_int (original_height m) * scale m)"

text \<open>The round trip of the claim: reference-space mapping, then the forward mapping.\<close>

definition round_trip :: "real \<times> real \<times> real \<times> real \<Rightarrow> scaling_meta \<Rightarrow> py_exception + real \<times> real \<times> real \<times> real" where
  "round_trip b m = bind_exc (scale_coords_car b m) (\<lambda>r. Inr (to_model_space r m))"

text \<open>Two boxes agree within a tolerance on every coordinate.\<close>

definition box_dist_less :: "real \<Rightarrow> real \<times> real \<times> real \<times> real \<Rightarrow> real \<times> real \<times> real \<times> real \<Rightarrow> bool" where
  "box_dist_less tol a b =
     (case a of (a0, a1, a2, a3) \<Rightarrow> case b of (b0, b1, b2, b3) \<Rightarrow>
        \<bar>a0 - b0\<bar> < tol \<and> \<bar>a1 - b1\<bar> < tol \<and> \<bar>a2 - b2\<bar> < tol \<and> \<bar>a3 - b3\<bar> < tol)"

text \<open>A box lies in the frame of the given width and height, on both sides of each axis.\<close>

definition box_within_frame :: "int \<Rightarrow> int \<Rightarrow> box \<Rightarrow> bool" where
  "box_within_frame w h b =
     (case b of (x_min, y_min, x_max, y_max) \<Rightarrow>
        0 \<le> x_min \<and> x_min \<le> w \<and> 0 \<le> x_max \<and> x_max \<le> w \<and>
        0 \<le> y_min \<and> y_min \<le> h \<and> 0 \<le> y_max \<and> y_max \<le> h)"

text \<open>The bounds that the one-sided clamps give: the minima from below, the maxima from
  above.\<close>

definition box_clamped_one_sided :: "int \<Rightarrow> int \<Rightarrow> box \<Rightarrow> bool" where
  "box_clamped_one_sided w h b =
     (case b of (x_min, y_min, x_max, y_max) \<Rightarrow>
        0 \<le> x_min \<and> 0 \<le> y_min \<and> x_max \<le> w \<and> y_max \<le> h)"

definition box_valid :: "box \<Rightarrow> bool" where
  "box_valid b = (case b of (x_min, y_min, x_max, y_max) \<Rightarrow> x_min < x_max \<and> y_min < y_max)"

section \<open>Rotation correction\<close>

text \<open>
  The OpenCV calls of \<^verbatim>\<open>detect_and_correct_rotation\<close> are collaborators; each of them
  may raise. \<open>find_contours\<close> stands for the conversion to grey, the blur, the adaptive
  threshold and \<^verbatim>\<open>cv2.findContours\<close>; \<open>min_area_rect_angle\<close> for the choice of the largest
  contour, \<^verbatim>\<open>cv2.minAreaRect\<close> and the reading of its angle; \<open>warp_affine\<close> for
  \<^verbatim>\<open>cv2.getRotationMatrix2D\<close> about the centre and \<^verbatim>\<open>cv2.warpAffine\<close>.
\<close>

record ('px, 'c) cv2_ops =
  find_contours :: "'px frame \<Rightarrow> py_exception + 'c list"
  min_area_rect_angle :: "'c list \<Rightarrow> py_exception + real"
  warp_affine :: "'px frame \<Rightarrow> real \<Rightarrow> py_exception + 'px frame"

definition ANGLE_THRESHOLD :: real where
  "ANGLE_THRESHOLD = 2"

definition normalize_angle :: "real \<Rightarrow> real" where
  "normalize_angle angle =
     (if angle < - 45 then 90 + angle else if 45 < angle then angle - 90 else angle)"

text \<open>The body of the \<^verbatim>\<open>try\<close> block.\<close>

definition rotation_body :: "('px, 'c) cv2_ops \<Rightarrow> 'px frame option \<Rightarrow> py_exception + 'px frame option" where
  "rotation_body ops plate_img =
     (case plate_img of
        None \<Rightarrow> Inr plate_img
      | Some img \<Rightarrow>
          if frame_size img = 0 then Inr plate_img
          else
            bind_exc (find_contours ops img) (\<lambda>contours.
              if contours = [] then Inr plate_img
              else
                bind_exc (min_area_rect_angle ops contours) (\<lambda>raw_angle.
                  let angle = normalize_angle raw_angle
                  in if \<bar>angle\<bar> < ANGLE_THRESHOLD then Inr plate_img
                     else bind_exc (warp_affine ops img angle) (\<lambda>rotated. Inr (Some rotated)))))"

text \<open>\<^verbatim>\<open>detect_and_correct_rotation\<close>, at module level (lines 121 to 170) and as a method
  (lines 360 to 384): the handler returns the image it was given.\<close>

definition detect_and_correct_rotation :: "('px, 'c) cv2_ops \<Rightarrow> 'px frame option \<Rightarrow> 'px frame option" where
  "detect_and_correct_rotation ops plate_img =
     (case rotation_body ops plate_img of Inl e \<Rightarrow> plate_img | Inr r \<Rightarrow> r)"

section \<open>The plate pipeline\<close>

text \<open>One row of a detector's output: the box in padded space and the confidence.\<close>

record detection_row =
  rx_min :: real
  ry_min :: real
  rx_max :: real
  ry_max :: real
  rconf :: real

text \<open>The output tensor of the stage 1 model: of shape \<open>(1, N, 5)\<close>, given by its rows, or of
  another shape.\<close>

datatype car_tensor = Dets "detection_row list" | Misshapen "nat list"

text \<open>\<^verbatim>\<open>detection[:4]\<close>, and the same after \<^verbatim>\<open>map(int, ...)\<close>.\<close>

definition raw_box :: "detection_row \<Rightarrow> real \<times> real \<times> real \<times> real" where
  "raw_box row = (rx_min row, ry_min row, rx_max row, ry_max row)"

definition truncated_box :: "detection_row \<Rightarrow> real \<times> real \<times> real \<times> real" where
  "truncated_box row =
     (of_int (py_int (rx_min row)), of_int (py_int (ry_min row)),
      of_int (py_int (rx_max row)), of_int (py_int (ry_max row)))"

text \<open>A retained stage 2 detection, the dictionary appended to \<^verbatim>\<open>relevant_detections\<close>.\<close>

record mapped_detection =
  x1 :: int
  y1 :: int
  x2 :: int
  y2 :: int
  class_name :: string
  confidence :: real
  ocr_text :: "string option"

text \<open>The servicer: its collaborators and its configuration. The detectors are applied to the
  tensor that preprocessing builds from a frame, and are given here as functions of that
  frame.\<close>

record ('px, 'c) plate_servicer =
  cv2_imdecode :: "nat list \<Rightarrow> py_exception + 'px frame option"
  compiled_car_model :: "'px frame \<Rightarrow> py_exception + car_tensor"
  cv2 :: "('px, 'c) cv2_ops"
  plate_model_loaded :: bool
  plate_target_height :: int
  plate_target_width :: int
  compiled_plate_model :: "'px frame \<Rightarrow> py_exception + detection_row list \<times> int list"
  class_map :: "int \<Rightarrow> string option"
  ocr_readtext :: "'px frame \<Rightarrow> py_exception + string list"

definition CAR_INPUT_HEIGHT :: int where
  "CAR_INPUT_HEIGHT = 640"

definition CAR_INPUT_WIDTH :: int where
  "CAR_INPUT_WIDTH = 640"

definition CAR_CONFIDENCE_THRESHOLD :: real where
  "CAR_CONFIDENCE_THRESHOLD = 53 / 100"

definition PLATE_CONFIDENCE_THRESHOLD :: real where
  "PLATE_CONFIDENCE_THRESHOLD = 54 / 100"

text \<open>A loop whose body may raise.\<close>

fun fold_exc :: "('s \<Rightarrow> 'a \<Rightarrow> py_exception + 's) \<Rightarrow> 'a list \<Rightarrow> 's \<Rightarrow> py_exception + 's" where
  "fold_exc f [] s = Inr s"
| "fold_exc f (x # xs) s = (case f s x of Inl e \<Rightarrow> Inl e | Inr s' \<Rightarrow> fold_exc f xs s')"

text \<open>\<^verbatim>\<open>preprocess_image_plate\<close>, the part that computes \<^verbatim>\<open>scaling_meta\<close>.\<close>

definition preprocess_image_plate :: "nat \<Rightarrow> nat \<Rightarrow> int \<Rightarrow> int \<Rightarrow> py_exception + scaling_meta_plate" where
  "preprocess_image_plate img_h img_w target_h target_w =
     bind_exc (py_truediv (of_int target_h) (of_nat img_h)) (\<lambda>scale_h.
     bind_exc (py_truediv (of_int target_w) (of_nat img_w)) (\<lambda>scale_w.
       let scale = min scale_h scale_w;
           new_h = py_int (of_nat img_h * scale);
           new_w = py_int (of_nat img_w * scale)
       in if new_h \<le> 0 \<or> new_w \<le> 0 then Inl cv2_error
          else let pad_h = target_h - new_h;
                   pad_w = target_w - new_w
               in if pad_h < 0 \<or> pad_w < 0 then Inl cv2_error
                  else Inr \<lparr>original_h = int img_h, original_w = int img_w,
                            plate_scale = scale, top_pad = pad_h div 2, left_pad = pad_w div 2\<rparr>))"

text \<open>The body of the stage 1 loop (lines 495 to 514). The state is
  \<^verbatim>\<open>(best_plate_crop, max_confidence_stage1)\<close>.\<close>

definition stage1_step :: "'px frame \<Rightarrow> scaling_meta \<Rightarrow> 'px frame option \<times> real \<Rightarrow> detection_row \<Rightarrow> py_exception + 'px frame option \<times> real" where
  "stage1_step image_bgr scaling_meta_car st detection_data =
     (case st of (best_plate_crop, max_confidence_stage1) \<Rightarrow>
        let confidence = rconf detection_data
        in if CAR_CONFIDENCE_THRESHOLD < confidence then
             bind_exc
                  (servicer_scale_coords_car (truncated_box detection_data) scaling_meta_car)
                  (\<lambda>orig_coords.
                     case orig_coords of (orig_x_min, orig_y_min, orig_x_max, orig_y_max) \<Rightarrow>
                       if orig_x_min < orig_x_max \<and> orig_y_min < orig_y_max then
                         let plate_crop = crop image_bgr orig_y_min orig_y_max orig_x_min orig_x_max
                         in if 0 < frame_size plate_crop then
                              if max_confidence_stage1 < confidence
                              then Inr (Some plate_crop, confidence)
                              else Inr st
                            else Inr st
                       else Inr st)
           else Inr st)"

definition stage1 :: "'px frame \<Rightarrow> scaling_meta \<Rightarrow> detection_row list \<Rightarrow> py_exception + 'px frame option \<times> real" where
  "stage1 image_bgr scaling_meta_car detections =
     fold_exc (stage1_step image_bgr scaling_meta_car) detections (None, 0)"

text \<open>The detections that stage 1 can keep: the confidence passes the test, the mapped box is
  valid and the crop is not empty.\<close>

definition stage1_eligible :: "'px frame \<Rightarrow> scaling_meta \<Rightarrow> detection_row \<Rightarrow> bool" where
  "stage1_eligible image_bgr scaling_meta_car d =
     (CAR_CONFIDENCE_THRESHOLD < rconf d \<and>
      (case servicer_scale_coords_car (truncated_box d) scaling_meta_car of
         Inl e \<Rightarrow> False
       | Inr b \<Rightarrow> box_valid b \<and> 0 < frame_size (crop_box image_bgr b)))"

definition stage1_crop :: "'px frame \<Rightarrow> scaling_meta \<Rightarrow> detection_row \<Rightarrow> 'px frame" where
  "stage1_crop image_bgr scaling_meta_car d =
     (case servicer_scale_coords_car (truncated_box d) scaling_meta_car of
        Inl e \<Rightarrow> []
      | Inr b \<Rightarrow> crop_box image_bgr b)"

text \<open>The fallback of \<^verbatim>\<open>self.class_map.get(label_index, f"Label_{label_index}")\<close>.\<close>

definition plate_class_name :: "(int \<Rightarrow> string option) \<Rightarrow> int \<Rightarrow> string" where
  "plate_class_name cm label_index =
     (case cm label_index of Some n \<Rightarrow> n | None \<Rightarrow> ''Label_'' @ py_str_int label_index)"

text \<open>The body of the stage 2 loop (lines 558 to 575). The state is
  \<^verbatim>\<open>(relevant_detections, avg_stage2_confidence, num_relevant_dets)\<close>; the label of row
  \<open>i\<close> is read before the confidence is tested.\<close>

definition stage2_step :: "(int \<Rightarrow> string option) \<Rightarrow> scaling_meta_plate \<Rightarrow> int list \<Rightarrow> mapped_detection list \<times> real \<times> nat \<Rightarrow> nat \<times> detection_row \<Rightarrow> py_exception + mapped_detection list \<times> real \<times> nat" where
  "stage2_step cm scaling_meta_plate output_labels_plate st idet =
     (case st of (relevant_detections, avg_stage2_confidence, num_relevant_dets) \<Rightarrow>
      case idet of (i, detection) \<Rightarrow>
        if length output_labels_plate \<le> i then Inl IndexError
        else
          let label_index = output_labels_plate ! i;
              conf = rconf detection
          in if PLATE_CONFIDENCE_THRESHOLD \<le> conf then
               let cname = plate_class_name cm label_index
               in if cname \<in> set [''num'', ''tun''] then
                    bind_exc
                      (scale_coords_plate (raw_box detection) scaling_meta_plate)
                      (\<lambda>b. case b of (bx1, by1, bx2, by2) \<Rightarrow>
                         if bx1 < bx2 \<and> by1 < by2 then
                           Inr (relevant_detections @
                                  [\<lparr>x1 = bx1, y1 = by1, x2 = bx2, y2 = by2, class_name = cname,
                                    confidence = conf, ocr_text = None\<rparr>],
                                avg_stage2_confidence + conf,
                                num_relevant_dets + 1)
                         else Inr st)
                  else Inr st
             else Inr st)"

definition stage2 :: "(int \<Rightarrow> string option) \<Rightarrow> scaling_meta_plate \<Rightarrow> detection_row list \<Rightarrow> int list \<Rightarrow> py_exception + mapped_detection list \<times> real \<times> nat" where
  "stage2 cm scaling_meta_plate output_dets_plate output_labels_plate =
     fold_exc (stage2_step cm scaling_meta_plate output_labels_plate)
       (enumerate 0 output_dets_plate) ([], 0, 0)"

text \<open>\<^verbatim>\<open>sep.join(parts)\<close>\<close>

fun py_join :: "string \<Rightarrow> string list \<Rightarrow> string" where
  "py_join sep [] = []"
| "py_join sep [p] = p"
| "py_join sep (p # q # ps) = p @ sep @ py_join sep (q # ps)"

text \<open>The text that an f-string gives a list of class names, which are \<^verbatim>\<open>'num'\<close> and
  \<^verbatim>\<open>'tun'\<close> only and are printed in single quotes.\<close>

definition py_repr_str :: "string \<Rightarrow> string" where
  "py_repr_str s = [CHR 0x27] @ s @ [CHR 0x27]"

definition py_repr_list :: "string list \<Rightarrow> string" where
  "py_repr_list xs = ''['' @ py_join '', '' (map py_repr_str xs) @ '']''"

text \<open>The text of a shape, a tuple of integers.\<close>

definition py_repr_shape :: "nat list \<Rightarrow> string" where
  "py_repr_shape sh =
     (case sh of
        [n] \<Rightarrow> ''('' @ nat_digits n @ '',)''
      | _ \<Rightarrow> ''('' @ py_join '', '' (map nat_digits sh) @ '')'')"

text \<open>The body of the OCR loop (lines 588 to 610); a failure of the reader is caught for the
  one detection.\<close>

definition ocr_step :: "('px frame \<Rightarrow> py_exception + string list) \<Rightarrow> 'px frame \<Rightarrow> mapped_detection \<Rightarrow> mapped_detection" where
  "ocr_step readtext corrected_plate_crop det =
     (if class_name det = ''num'' then
        let margin = 2;
            crop_h = int (frame_height corrected_plate_crop);
            crop_w = int (frame_width corrected_plate_crop);
            y1m = max 0 (y1 det - margin);
            y2m = min crop_h (y2 det + margin);
            x1m = max 0 (x1 det - margin);
            x2m = min crop_w (x2 det + margin)
        in if y2m \<le> y1m \<or> x2m \<le> x1m then det\<lparr>ocr_text := Some ''[OCR_CROP_FAIL]''\<rparr>
           else
             (case readtext (crop corrected_plate_crop y1m y2m x1m x2m) of
                Inl ocr_err \<Rightarrow> det\<lparr>ocr_text := Some ''[OCR_ERROR]''\<rparr>
              | Inr ocr_result_list \<Rightarrow>
                  let txt = filter (\<lambda>c. c \<noteq> CHR '' '') (py_strip (concat ocr_result_list))
                  in det\<lparr>ocr_text := Some (if txt \<noteq> [] then txt else ''[NO_DIGITS]'')\<rparr>)
      else det)"

text \<open>The tests on a recognised text: \<^verbatim>\<open>ocr and '[OCR' not in ocr and '[NO' not in ocr\<close>
  and its negation \<^verbatim>\<open>not ocr or '[OCR' in ocr or '[NO' in ocr\<close>; Python evaluates neither
  containment on \<^verbatim>\<open>None\<close>.\<close>

definition ocr_usable :: "string option \<Rightarrow> bool" where
  "ocr_usable t =
     (case t of None \<Rightarrow> False
      | Some s \<Rightarrow> s \<noteq> [] \<and> \<not> py_in ''[OCR'' s \<and> \<not> py_in ''[NO'' s)"

definition ocr_failed :: "string option \<Rightarrow> bool" where
  "ocr_failed t =
     (case t of None \<Rightarrow> True
      | Some s \<Rightarrow> s = [] \<or> py_in ''[OCR'' s \<or> py_in ''[NO'' s)"

text \<open>\<^verbatim>\<open>ocr or '[N/A]'\<close>\<close>

definition or_na :: "string option \<Rightarrow> string" where
  "or_na t = (case t of None \<Rightarrow> ''[N/A]'' | Some s \<Rightarrow> if s \<noteq> [] then s else ''[N/A]'')"

definition the_text :: "string option \<Rightarrow> string" where
  "the_text t = (case t of None \<Rightarrow> ''None'' | Some s \<Rightarrow> s)"

text \<open>Stage 4 (lines 612 to 684): the sequence of class names is matched against the three
  patterns. The result is \<^verbatim>\<open>(final_plate_string, final_error_message)\<close>.\<close>

definition assemble_plate :: "mapped_detection list \<Rightarrow> string \<times> string option" where
  "assemble_plate sorted_detections =
     (let detection_sequence = map class_name sorted_detections;
          r =
            (if detection_sequence = [''num'', ''tun'', ''num''] then
               (if length sorted_detections = 3 then
                  let ocr1 = ocr_text (sorted_detections ! 0);
                      ocr2 = ocr_text (sorted_detections ! 2)
                  in if ocr_usable ocr1 \<and> ocr_usable ocr2
                     then (the_text ocr1 @ '' TN '' @ the_text ocr2, False, [])
                     else
                       let failed_parts =
                             (if ocr_failed ocr1 then [''first number''] else []) @
                             (if ocr_failed ocr2 then [''second number''] else [])
                       in (''OCR Incomplete: '' @ or_na ocr1 @ '' TN '' @ or_na ocr2, True,
                           ''OCR failed on '' @ py_join '', '' failed_parts)
                else ([], True, ''Detection count mismatch for num-tun-num pattern''))
             else if detection_sequence = [''num'', ''tun''] then
               (if length sorted_detections = 2 then
                  let ocr_num = ocr_text (sorted_detections ! 0)
                  in if ocr_usable ocr_num then (''RS '' @ the_text ocr_num, False, [])
                     else (''RS OCR Error: '' @ or_na ocr_num, True,
                           ''OCR failed on number part for RS-style plate'')
                else ([], True, ''Detection count mismatch for num-tun pattern''))
             else if detection_sequence = [''tun'', ''num''] then
               (if length sorted_detections = 2 then
                  let ocr_num = ocr_text (sorted_detections ! 1)
                  in if ocr_usable ocr_num then (''RS '' @ the_text ocr_num, False, [])
                     else (''RS OCR Error: '' @ or_na ocr_num, True,
                           ''OCR failed on number part for RS-style plate'')
                else ([], True, ''Detection count mismatch for tun-num pattern''))
             else (''Pattern Error'', True,
                   ''Unrecognized plate pattern: '' @ py_repr_list detection_sequence))
      in case r of (final_plate_string, error_occurred, error_message_assembly) \<Rightarrow>
           if final_plate_string = [] \<and> \<not> error_occurred
           then (final_plate_string, Some ''Failed to assemble plate string'')
           else (final_plate_string, if error_occurred then Some error_message_assembly else None))"

text \<open>The pipeline from the end of the stage 2 loop on (lines 578 to 684).\<close>

definition finish_detection :: "('px frame \<Rightarrow> py_exception + string list) \<Rightarrow> 'px frame \<Rightarrow> real \<Rightarrow> mapped_detection list \<times> real \<times> nat \<Rightarrow> string \<times> real \<times> string option" where
  "finish_detection readtext corrected_plate_crop max_confidence_stage1 st =
     (case st of (relevant_detections, sum_stage2_confidence, num_relevant_dets) \<Rightarrow>
        if relevant_detections = []
        then ([], max_confidence_stage1, Some ''No characters detected in Stage 2'')
        else
          let avg_stage2_confidence =
                (if 0 < num_relevant_dets then sum_stage2_confidence / of_nat num_relevant_dets
                 else 0);
              overall_confidence = (max_confidence_stage1 + avg_stage2_confidence) / 2;
              sorted_detections = sort_key x1 relevant_detections;
              read_detections = map (ocr_step readtext corrected_plate_crop) sorted_detections
          in case assemble_plate read_detections of
               (final_plate_string, final_error_message) \<Rightarrow>
                 (final_plate_string, overall_confidence, final_error_message))"

text \<open>Step 5 (lines 521 to 526): the rotation is corrected, and the crop itself is kept when
  the corrector gives nothing.\<close>

definition correct_rotation :: "('px, 'c) cv2_ops \<Rightarrow> 'px frame \<Rightarrow> 'px frame" where
  "correct_rotation ops best_plate_crop =
     (case detect_and_correct_rotation ops (Some best_plate_crop) of
        None \<Rightarrow> best_plate_crop
      | Some rotated \<Rightarrow> if frame_size rotated = 0 then best_plate_crop else rotated)"

text \<open>The body of the \<^verbatim>\<open>try\<close> block of \<^verbatim>\<open>_perform_detection\<close>.\<close>

definition detection_body :: "('px, 'c) plate_servicer \<Rightarrow> nat list \<Rightarrow> py_exception + string \<times> real \<times> string option" where
  "detection_body self image_bytes =
     bind_exc (cv2_imdecode self image_bytes) (\<lambda>decoded.
       case decoded of
         None \<Rightarrow> Inr ([], 0, Some ''Failed to decode image bytes.'')
       | Some image_bgr \<Rightarrow>
     bind_exc (preprocess_image_car (frame_height image_bgr) (frame_width image_bgr)
                 CAR_INPUT_HEIGHT CAR_INPUT_WIDTH) (\<lambda>scaling_meta_car.
     bind_exc (compiled_car_model self image_bgr) (\<lambda>output_dets_car.
       case output_dets_car of
         Misshapen sh \<Rightarrow>
           Inr ([], 0, Some (''Unexpected car model output shape: '' @ py_repr_shape sh @
                             ''. Expected (1, N, 5).''))
       | Dets detections \<Rightarrow>
     bind_exc (stage1 image_bgr scaling_meta_car detections) (\<lambda>s1.
       case s1 of
         (None, max_confidence_stage1) \<Rightarrow>
           Inr ([], 0, Some ''No plate detected with sufficient confidence in Stage 1.'')
       | (Some best_plate_crop, max_confidence_stage1) \<Rightarrow>
           let corrected_plate_crop = correct_rotation (cv2 self) best_plate_crop
           in if \<not> plate_model_loaded self
              then Inr ([], max_confidence_stage1,
                        Some ''Stage 2 model not available for character detection.'')
              else
     bind_exc (preprocess_image_plate (frame_height corrected_plate_crop)
                 (frame_width corrected_plate_crop)
                 (plate_target_height self) (plate_target_width self)) (\<lambda>scaling_meta_plate.
     bind_exc (compiled_plate_model self corrected_plate_crop) (\<lambda>results_plate.
       case results_plate of (output_dets_plate, output_labels_plate) \<Rightarrow>
     bind_exc (stage2 (class_map self) scaling_meta_plate output_dets_plate output_labels_plate)
       (\<lambda>s2. Inr (finish_detection (ocr_readtext self) corrected_plate_crop
                     max_confidence_stage1 s2))))))))"

text \<open>\<^verbatim>\<open>_perform_detection\<close>: the handler turns every exception into a result.\<close>

definition perform_detection :: "('px, 'c) plate_servicer \<Rightarrow> nat list \<Rightarrow> string \<times> real \<times> string option" where
  "perform_detection self image_bytes =
     (case detection_body self image_bytes of
        Inl e \<Rightarrow> ([], 0, Some (''Internal server error during detection: '' @ type_name e))
      | Inr r \<Rightarrow> r)"

text \<open>The response of \<^verbatim>\<open>DetectPlate\<close>.\<close>

record plate_response =
  success :: bool
  plate_number :: string
  response_confidence :: real
  error_message :: string

definition DetectPlate :: "('px, 'c) plate_servicer \<Rightarrow> nat list \<Rightarrow> plate_response" where
  "DetectPlate self request_image =
     (case perform_detection self request_image of (plate, conf, err) \<Rightarrow>
        \<lparr>success = (err = None \<and> plate \<noteq> [] \<and> \<not> py_in ''Error'' plate),
         plate_number = plate,
         response_confidence = conf,
         error_message = (case err of None \<Rightarrow> [] | Some msg \<Rightarrow> msg)\<rparr>)"

section \<open>The document service\<close>










text \<open>The fallback of
  \<^verbatim>\<open>self.class_id_to_name.get(label_id, f"unknown_id_{label_id}")\<close>.\<close>

definition cin_resolve_class_name :: "(int \<Rightarrow> string option) \<Rightarrow> int \<Rightarrow> string" where
  "cin_resolve_class_name cm lid =
     (case cm lid of Some n \<Rightarrow> n | None \<Rightarrow> ''unknown_id_'' @ py_str_int lid)"

text \<open>The placeholder as the specification words it, \<open>unknown_<id>\<close>, to be compared with
  the two fallbacks of the source.\<close>

definition spec_unknown_label :: "int \<Rightarrow> string" where
  "spec_unknown_label lid = ''unknown_'' @ py_str_int lid"

text \<open>The mapping into the original image (lines 221 to 237). The division is NumPy's and
  does not raise; the scale is positive here, \<^verbatim>\<open>_preprocess_image\<close> has raised otherwise.\<close>

definition cin_box_orig :: "detection_row \<Rightarrow> int \<Rightarrow> int \<Rightarrow> real \<Rightarrow> int \<Rightarrow> int \<Rightarrow> box" where
  "cin_box_orig row orig_h orig_w scale_arg pad_top_arg pad_left_arg =
     (let x_min_orig = max 0 ((rx_min row - of_int pad_left_arg) / scale_arg);
          y_min_orig = max 0 ((ry_min row - of_int pad_top_arg) / scale_arg);
          x_max_orig = min (of_int orig_w) ((rx_max row - of_int pad_left_arg) / scale_arg);
          y_max_orig = min (of_int orig_h) ((ry_max row - of_int pad_top_arg) / scale_arg)
      in (py_int x_min_orig, py_int y_min_orig, py_int x_max_orig, py_int y_max_orig))"









section \<open>Facts about the Python values\<close>

lemma py_int_nonneg: "0 \<le> x \<Longrightarrow> py_int x = \<lfloor>x\<rfloor>"
  by (simp add: py_int_def)

lemma py_int_ge0: "0 \<le> x \<Longrightarrow> 0 \<le> py_int x"
  by (simp add: py_int_def)

lemma py_int_le: "x \<le> of_int k \<Longrightarrow> py_int x \<le> k"
  by (auto simp: py_int_def floor_le_iff ceiling_le_iff intro: order_trans)

section \<open>The reference-space mappings\<close>

text \<open>With a scale that is not zero the three mappings divide and return these boxes.\<close>

lemma car_value:
  "scale m \<noteq> 0 \<Longrightarrow>
   scale_coords_car (b0, b1, b2, b3) m =
     Inr (py_int (max 0 (min ((b0 - of_int (pad_left m)) / scale m) (of_int (original_width m)))),
          py_int (max 0 (min ((b1 - of_int (pad_top m)) / scale m) (of_int (original_height m)))),
          py_int (max 0 (min ((b2 - of_int (pad_left m)) / scale m) (of_int (original_width m)))),
          py_int (max 0 (min ((b3 - of_int (pad_top m)) / scale m) (of_int (original_height m)))))"
  by (simp add: scale_coords_car_def bind_exc_def py_truediv_def Let_def)

lemma servicer_car_value:
  "scale m \<noteq> 0 \<Longrightarrow>
   servicer_scale_coords_car (b0, b1, b2, b3) m =
     Inr (max 0 (py_int ((b0 - of_int (pad_left m)) / scale m)),
          max 0 (py_int ((b1 - of_int (pad_top m)) / scale m)),
          min (original_width m) (py_int ((b2 - of_int (pad_left m)) / scale m)),
          min (original_height m) (py_int ((b3 - of_int (pad_top m)) / scale m)))"
  by (simp add: servicer_scale_coords_car_def bind_exc_def py_truediv_def Let_def)

lemma plate_value:
  "plate_scale m \<noteq> 0 \<Longrightarrow>
   scale_coords_plate (b0, b1, b2, b3) m =
     Inr (max 0 (py_int ((b0 - of_int (left_pad m)) / plate_scale m)),
          max 0 (py_int ((b1 - of_int (top_pad m)) / plate_scale m)),
          min (original_w m) (py_int ((b2 - of_int (left_pad m)) / plate_scale m)),
          min (original_h m) (py_int ((b3 - of_int (top_pad m)) / plate_scale m)))"
  by (simp add: scale_coords_plate_def bind_exc_def py_truediv_def Let_def)

text \<open>None of the three mappings raises, whatever the scale.\<close>

lemma scale_coords_never_raise:
  "(\<exists>r. scale_coords_car b m = Inr r) \<and> (\<exists>r. servicer_scale_coords_car b m = Inr r) \<and>
   (\<exists>r. scale_coords_plate b mp = Inr r)"
  by (cases b)
    (simp add: scale_coords_car_def servicer_scale_coords_car_def scale_coords_plate_def
      bind_exc_def py_truediv_def Let_def)

text \<open>
  Claim C2. When the scale of the context is zero, \<^verbatim>\<open>scale_coords_car\<close> (the function at
  module level and the method of the servicer) and \<^verbatim>\<open>scale_coords_plate\<close> return the box
  \<open>(0, 0, 0, 0)\<close>. They return it as a value: no exception is raised, and the division, which
  raises on a zero divisor in the model, is not reached.
\<close>

theorem zero_scale_degenerate_box:
  "scale mc = 0 \<Longrightarrow> plate_scale mp = 0 \<Longrightarrow>
     scale_coords_car b mc = Inr (0, 0, 0, 0) \<and>
     servicer_scale_coords_car b mc = Inr (0, 0, 0, 0) \<and>
     scale_coords_plate b mp = Inr (0, 0, 0, 0)"
  by (simp add: scale_coords_car_def servicer_scale_coords_car_def scale_coords_plate_def
      split: prod.splits)

theorem zero_scale_degenerate_box_witness:
  "scale \<lparr>original_height = 1080, original_width = 1920, scale = 0, pad_top = 140, pad_left = 0\<rparr> = 0 \<and>
   plate_scale \<lparr>original_h = 60, original_w = 400, plate_scale = 0, top_pad = 272, left_pad = 0\<rparr> = 0 \<and>
   scale_coords_car (100, 200, 500, 260)
     \<lparr>original_height = 1080, original_width = 1920, scale = 0, pad_top = 140, pad_left = 0\<rparr>
     = Inr (0, 0, 0, 0) \<and>
   servicer_scale_coords_car (100, 200, 500, 260)
     \<lparr>original_height = 1080, original_width = 1920, scale = 0, pad_top = 140, pad_left = 0\<rparr>
     = Inr (0, 0, 0, 0) \<and>
   scale_coords_plate (100, 200, 500, 260)
     \<lparr>original_h = 60, original_w = 400, plate_scale = 0, top_pad = 272, left_pad = 0\<rparr>
     = Inr (0, 0, 0, 0)"
proof -
  let ?mc = "\<lparr>original_height = 1080, original_width = 1920, scale = 0, pad_top = 140, pad_left = 0\<rparr>"
  let ?mp = "\<lparr>original_h = 60, original_w = 400, plate_scale = 0, top_pad = 272, left_pad = 0\<rparr>"
  have h1: "scale ?mc = 0" by simp
  have h2: "plate_scale ?mp = 0" by simp
  from h1 h2 zero_scale_degenerate_box [OF h1 h2, of "(100, 200, 500, 260)"]
  show ?thesis by blast
qed

section \<open>Bounds of the mapped boxes\<close>

lemma one_sided_valid_within:
  "box_clamped_one_sided w h b \<Longrightarrow> box_valid b \<Longrightarrow> box_within_frame w h b"
  by (auto simp: box_clamped_one_sided_def box_valid_def box_within_frame_def split: prod.splits)

lemma cin_box_one_sided:
  "box_clamped_one_sided orig_w orig_h (cin_box_orig row orig_h orig_w s pt pl)"
  by (simp add: cin_box_orig_def box_clamped_one_sided_def Let_def py_int_ge0 py_int_le)

text \<open>The function at module level, which the servicer does not call, clamps each coordinate
  on both sides.\<close>

lemma module_scale_coords_car_within_frame:
  assumes "scale m \<noteq> 0" and "0 \<le> original_width m" and "0 \<le> original_height m"
  shows "\<exists>r. scale_coords_car b m = Inr r \<and>
              box_within_frame (original_width m) (original_height m) r"
proof -
  obtain b0 b1 b2 b3 where b: "b = (b0, b1, b2, b3)"
    by (cases b) auto
  have "0 \<le> py_int (max 0 (min q (of_int k))) \<and> py_int (max 0 (min q (of_int k))) \<le> k"
    if "0 \<le> k" for q :: real and k :: int
    using that by (simp add: py_int_ge0 py_int_le)
  then show ?thesis
    using assms by (simp add: b car_value box_within_frame_def)
qed

lemma prep_1080: "preprocess_image_car 1080 1920 640 640 =
   Inr \<lparr>original_height = 1080, original_width = 1920, scale = 1 / 3, pad_top = 140, pad_left = 0\<rparr>"
  by (simp add: preprocess_image_car_def bind_exc_def py_truediv_def py_round_def Let_def)

text \<open>
  Claim C8, as stated, fails. A frame of 1920 by 1080 pixels is letterboxed with scale 1/3 and
  140 rows of padding above the content. The box \<open>(10, 20, 50, 100)\<close> lies in that padding, and
  the method \<^verbatim>\<open>scale_coords_car\<close> of the servicer maps it to \<open>(30, 0, 150, -120)\<close>: the lower
  edge is left below zero, since \<^verbatim>\<open>y_max\<close> is clamped from above only.
\<close>

theorem mapped_box_out_of_frame:
  "bind_exc (preprocess_image_car 1080 1920 640 640) (servicer_scale_coords_car (10, 20, 50, 100))
     = Inr (30, 0, 150, - 120) \<and>
   \<not> box_within_frame 1920 1080 (30, 0, 150, - 120)"
  by (simp add: prep_1080 bind_exc_def servicer_car_value py_int_def box_within_frame_def)

text \<open>
  Claim C8, amended. With a positive scale, the method \<^verbatim>\<open>scale_coords_car\<close>,
  \<^verbatim>\<open>scale_coords_plate\<close> and the mapping of \<^verbatim>\<open>ExtractCinData\<close> return a box with
  \<open>0 \<le> x_min\<close>, \<open>0 \<le> y_min\<close>, \<open>x_max \<le> original_width\<close> and \<open>y_max \<le> original_height\<close>.
  When the returned box also has \<open>x_min < x_max\<close> and \<open>y_min < y_max\<close>, the other four bounds
  hold as well and the box lies in the frame on both sides of each axis. Nothing is stated
  about the other four bounds of a returned box that fails this test.
\<close>

theorem mapped_box_bounds:
  assumes "0 < scale m" and "0 < plate_scale mp" and "0 < s"
  shows "\<exists>b1 b2 b3.
           servicer_scale_coords_car raw m = Inr b1 \<and>
           scale_coords_plate raw mp = Inr b2 \<and>
           cin_box_orig row orig_h orig_w s pt pl = b3 \<and>
           box_clamped_one_sided (original_width m) (original_height m) b1 \<and>
           box_clamped_one_sided (original_w mp) (original_h mp) b2 \<and>
           box_clamped_one_sided orig_w orig_h b3 \<and>
           (box_valid b1 \<longrightarrow> box_within_frame (original_width m) (original_height m) b1) \<and>
           (box_valid b2 \<longrightarrow> box_within_frame (original_w mp) (original_h mp) b2) \<and>
           (box_valid b3 \<longrightarrow> box_within_frame orig_w orig_h b3)"
proof -
  obtain r0 r1 r2 r3 where raw: "raw = (r0, r1, r2, r3)"
    by (cases raw) auto
  have c1: "box_clamped_one_sided (original_width m) (original_height m)
      (max 0 (py_int ((r0 - of_int (pad_left m)) / scale m)),
       max 0 (py_int ((r1 - of_int (pad_top m)) / scale m)),
       min (original_width m) (py_int ((r2 - of_int (pad_left m)) / scale m)),
       min (original_height m) (py_int ((r3 - of_int (pad_top m)) / scale m)))"
    by (simp add: box_clamped_one_sided_def)
  have c2: "box_clamped_one_sided (original_w mp) (original_h mp)
      (max 0 (py_int ((r0 - of_int (left_pad mp)) / plate_scale mp)),
       max 0 (py_int ((r1 - of_int (top_pad mp)) / plate_scale mp)),
       min (original_w mp) (py_int ((r2 - of_int (left_pad mp)) / plate_scale mp)),
       min (original_h mp) (py_int ((r3 - of_int (top_pad mp)) / plate_scale mp)))"
    by (simp add: box_clamped_one_sided_def)
  show ?thesis
    using assms c1 c2 cin_box_one_sided [of orig_w orig_h row s pt pl]
    by (simp add: raw servicer_car_value plate_value one_sided_valid_within)
qed

theorem mapped_box_bounds_witness:
  "0 < scale \<lparr>original_height = 1080, original_width = 1920, scale = 1 / 3, pad_top = 140, pad_left = 0\<rparr> \<and>
   0 < plate_scale \<lparr>original_h = 60, original_w = 400, plate_scale = 8 / 5, top_pad = 272, left_pad = 0\<rparr> \<and>
   (0 :: real) < 1 / 3 \<and>
   (\<exists>b1 b2 b3.
      servicer_scale_coords_car (100, 200, 500, 300)
        \<lparr>original_height = 1080, original_width = 1920, scale = 1 / 3, pad_top = 140, pad_left = 0\<rparr>
        = Inr b1 \<and>
      scale_coords_plate (100, 200, 500, 300)
        \<lparr>original_h = 60, original_w = 400, plate_scale = 8 / 5, top_pad = 272, left_pad = 0\<rparr>
        = Inr b2 \<and>
      cin_box_orig \<lparr>rx_min = 100, ry_min = 200, rx_max = 500, ry_max = 300, rconf = 9 / 10\<rparr>
        1080 1920 (1 / 3) 140 0 = b3 \<and>
      box_valid b1 \<and> box_within_frame 1920 1080 b1 \<and>
      box_valid b2 \<and> box_within_frame 400 60 b2 \<and>
      box_valid b3 \<and> box_within_frame 1920 1080 b3)"
proof -
  let ?m = "\<lparr>original_height = 1080, original_width = 1920, scale = 1 / 3, pad_top = 140, pad_left = 0\<rparr>"
  let ?mp = "\<lparr>original_h = 60, original_w = 400, plate_scale = 8 / 5, top_pad = 272, left_pad = 0\<rparr>"
  let ?row = "\<lparr>rx_min = 100, ry_min = 200, rx_max = 500, ry_max = 300, rconf = 9 / 10\<rparr>"
  have h1: "0 < scale ?m" by simp
  have h2: "0 < plate_scale ?mp" by simp
  have h3: "(0 :: real) < 1 / 3" by simp
  have v1: "servicer_scale_coords_car (100, 200, 500, 300) ?m = Inr (300, 180, 1500, 480)"
    by (simp add: servicer_car_value py_int_def)
  have v2: "scale_coords_plate (100, 200, 500, 300) ?mp = Inr (62, 0, 312, 17)"
    by (simp add: plate_value py_int_def)
  have v3: "cin_box_orig ?row 1080 1920 (1 / 3) 140 0 = (300, 180, 1500, 480)"
    by (simp add: cin_box_orig_def py_int_def)
  have valid: "box_valid (300, 180, 1500, 480)" "box_valid (62, 0, 312, 17)"
    by (simp_all add: box_valid_def)
  from mapped_box_bounds [OF h1 h2 h3, of "(100, 200, 500, 300)" ?row 1080 1920 140 0]
  have "box_within_frame 1920 1080 (300, 180, 1500, 480) \<and>
        box_within_frame 400 60 (62, 0, 312, 17)"
    using valid by (simp add: v1 v2 v3)
  with h1 h2 h3 v1 v2 v3 valid show ?thesis by blast
qed

section \<open>The round trip through the reference space\<close>

text \<open>One coordinate: the truncation loses less than one pixel of the reference space, which
  is less than the scale in the padded space.\<close>

lemma coord_round_trip:
  fixes s x :: real and p w :: int
  assumes s: "0 < s" and lo: "of_int p \<le> x" and hi: "x \<le> of_int p + of_int w * s"
  defines "r \<equiv> py_int (max 0 (min ((x - of_int p) / s) (of_int w)))"
  shows "of_int r * s + of_int p \<le> x" and "x - (of_int r * s + of_int p) < s"
proof -
  let ?q = "(x - of_int p) / s"
  have q0: "0 \<le> ?q" using s lo by simp
  have qw: "?q \<le> of_int w" using s hi by (simp add: pos_divide_le_eq)
  have r: "r = \<lfloor>?q\<rfloor>"
    using q0 qw by (simp add: r_def py_int_nonneg max_def min_def)
  have le: "of_int r \<le> ?q" unfolding r by (rule of_int_floor_le)
  have lt: "?q < of_int r + 1" unfolding r by linarith
  from le s have "of_int r * s \<le> x - of_int p"
    by (simp add: pos_le_divide_eq)
  then show "of_int r * s + of_int p \<le> x" by simp
  from lt s have "x - of_int p < (of_int r + 1) * s"
    by (simp add: pos_divide_less_eq)
  then show "x - (of_int r * s + of_int p) < s"
    by (simp add: algebra_simps)
qed

lemma coord_dist:
  fixes s x :: real and p w :: int
  assumes "0 < s" "of_int p \<le> x" "x \<le> of_int p + of_int w * s"
  shows "\<bar>of_int (py_int (max 0 (min ((x - of_int p) / s) (of_int w)))) * s + of_int p - x\<bar> < s"
  using coord_round_trip [OF assms] by linarith

lemma prep_64: "preprocess_image_car 64 64 640 640 =
   Inr \<lparr>original_height = 64, original_width = 64, scale = 10, pad_top = 0, pad_left = 0\<rparr>"
  by (simp add: preprocess_image_car_def bind_exc_def py_truediv_def py_round_def Let_def)

text \<open>
  Claim C1, as stated, fails when the image is enlarged. A frame of 64 by 64 pixels has the
  context with scale 10 and no padding (lemma \<open>prep_64\<close>). The box \<open>(15, 15, 25, 25)\<close> lies in
  the content region; the reference-space mapping truncates it to \<open>(1, 1, 2, 2)\<close>, and the
  forward mapping returns \<open>(10, 10, 20, 20)\<close>, five units away from the box on every
  coordinate.
\<close>

theorem round_trip_exceeds_rounding:
  "in_content_region
     \<lparr>original_height = 64, original_width = 64, scale = 10, pad_top = 0, pad_left = 0\<rparr>
     (15, 15, 25, 25) \<and>
   round_trip (15, 15, 25, 25)
     \<lparr>original_height = 64, original_width = 64, scale = 10, pad_top = 0, pad_left = 0\<rparr>
     = Inr (10, 10, 20, 20) \<and>
   \<not> box_dist_less 1 (10, 10, 20, 20) (15, 15, 25, 25)"
  by (simp add: in_content_region_def round_trip_def car_value bind_exc_def py_int_def
      to_model_space_def box_dist_less_def)

text \<open>
  Claim C1, amended. For a context with a positive scale and a box whose corners lie in the
  padded-content region, \<^verbatim>\<open>scale_coords_car\<close> followed by the forward mapping returns a box
  each of whose coordinates differs from the original by less than the scale, that is by less
  than one pixel of the reference frame. When the scale is at most one (the image is not
  enlarged) the difference is less than one.
\<close>

theorem round_trip_within_scale:
  assumes "0 < scale m" and "in_content_region m b"
  shows "\<exists>b'. round_trip b m = Inr b' \<and> box_dist_less (scale m) b' b \<and>
               (scale m \<le> 1 \<longrightarrow> box_dist_less 1 b' b)"
proof -
  obtain b0 b1 b2 b3 where b: "b = (b0, b1, b2, b3)"
    by (cases b) auto
  let ?b' = "to_model_space
      (py_int (max 0 (min ((b0 - of_int (pad_left m)) / scale m) (of_int (original_width m)))),
       py_int (max 0 (min ((b1 - of_int (pad_top m)) / scale m) (of_int (original_height m)))),
       py_int (max 0 (min ((b2 - of_int (pad_left m)) / scale m) (of_int (original_width m)))),
       py_int (max 0 (min ((b3 - of_int (pad_top m)) / scale m) (of_int (original_height m))))) m"
  have rt: "round_trip b m = Inr ?b'"
    using assms(1) by (simp add: round_trip_def b car_value bind_exc_def)
  from assms(2) have reg:
    "of_int (pad_left m) \<le> b0" "b0 \<le> of_int (pad_left m) + of_int (original_width m) * scale m"
    "of_int (pad_left m) \<le> b2" "b2 \<le> of_int (pad_left m) + of_int (original_width m) * scale m"
    "of_int (pad_top m) \<le> b1" "b1 \<le> of_int (pad_top m) + of_int (original_height m) * scale m"
    "of_int (pad_top m) \<le> b3" "b3 \<le> of_int (pad_top m) + of_int (original_height m) * scale m"
    by (simp_all add: in_content_region_def b)
  have d: "box_dist_less (scale m) ?b' b"
    unfolding box_dist_less_def to_model_space_def b prod.case
    by (intro conjI coord_dist [OF assms(1)] reg)
  have "box_dist_less 1 ?b' b" if "scale m \<le> 1"
  proof -
    have "\<And>u v :: real. \<bar>u - v\<bar> < scale m \<Longrightarrow> \<bar>u - v\<bar> < 1"
      using that by linarith
    then show ?thesis
      using d unfolding box_dist_less_def to_model_space_def b prod.case by blast
  qed
  with rt d show ?thesis by blast
qed

theorem round_trip_within_scale_witness:
  "0 < scale \<lparr>original_height = 1200, original_width = 1600, scale = 2 / 5, pad_top = 80, pad_left = 0\<rparr> \<and>
   in_content_region
     \<lparr>original_height = 1200, original_width = 1600, scale = 2 / 5, pad_top = 80, pad_left = 0\<rparr>
     (101, 201, 500, 261) \<and>
   round_trip (101, 201, 500, 261)
     \<lparr>original_height = 1200, original_width = 1600, scale = 2 / 5, pad_top = 80, pad_left = 0\<rparr>
     = Inr (504 / 5, 1004 / 5, 500, 1304 / 5) \<and>
   box_dist_less 1 (504 / 5, 1004 / 5, 500, 1304 / 5) (101, 201, 500, 261)"
proof -
  let ?m = "\<lparr>original_height = 1200, original_width = 1600, scale = 2 / 5, pad_top = 80, pad_left = 0\<rparr>"
  have h1: "0 < scale ?m" by simp
  have h2: "in_content_region ?m (101, 201, 500, 261)"
    by (simp add: in_content_region_def)
  have h3: "scale ?m \<le> 1" by simp
  have v: "round_trip (101, 201, 500, 261) ?m = Inr (504 / 5, 1004 / 5, 500, 1304 / 5)"
    by (simp add: round_trip_def car_value bind_exc_def py_int_def to_model_space_def)
  from round_trip_within_scale [OF h1 h2] h3
  have "box_dist_less 1 (504 / 5, 1004 / 5, 500, 1304 / 5) (101, 201, 500, 261)"
    by (simp add: v)
  with h1 h2 v show ?thesis by blast
qed

section \<open>Loops\<close>

text \<open>A property that the initial state has and every step keeps holds when the loop ends.\<close>

lemma fold_exc_invariant:
  assumes "fold_exc f xs s = Inr s'" and "P s"
    and "\<And>t x t'. x \<in> set xs \<Longrightarrow> P t \<Longrightarrow> f t x = Inr t' \<Longrightarrow> P t'"
  shows "P s'"
  using assms
proof (induction xs arbitrary: s)
  case Nil
  then show ?case by simp
next
  case (Cons x xs)
  from Cons.prems(1) obtain t where t: "f s x = Inr t" and rest: "fold_exc f xs t = Inr s'"
    by (auto split: sum.splits)
  have "P t"
    by (rule Cons.prems(3) [of x s t]) (simp_all add: Cons.prems(2) t)
  with rest Cons.prems(3) show ?case
    by (intro Cons.IH [of t]) auto
qed

lemma snd_in_enumerate: "p \<in> set (enumerate k xs) \<Longrightarrow> snd p \<in> set xs"
  by (cases p) (auto simp: in_set_enumerate_eq)

section \<open>Stage 1: the best single detection\<close>

lemma stage1_step_cases:
  assumes "stage1_step img m st d = Inr st'"
  shows "st' = st \<or>
         (\<exists>b. servicer_scale_coords_car (truncated_box d) m = Inr b \<and> box_valid b \<and>
              0 < frame_size (crop_box img b) \<and>
              CAR_CONFIDENCE_THRESHOLD < rconf d \<and> snd st < rconf d \<and>
              st' = (Some (crop_box img b), rconf d))"
  using assms
  by (auto simp: stage1_step_def bind_exc_def box_valid_def crop_box_def Let_def
      split: prod.splits sum.splits if_splits)

text \<open>A detection whose confidence does not exceed the threshold leaves the state as it is;
  so does a detection whose confidence does not exceed the best one so far, which is why the
  earlier of two equal confidences is kept.\<close>

lemma stage1_step_below_threshold:
  "rconf d \<le> CAR_CONFIDENCE_THRESHOLD \<Longrightarrow> stage1_step img m st d = Inr st"
  by (simp add: stage1_step_def Let_def split: prod.splits)

lemma stage1_step_tie_keeps_earlier:
  assumes "rconf d \<le> max_conf"
  shows "stage1_step img m (best, max_conf) d = Inr (best, max_conf)"
proof -
  obtain b where "servicer_scale_coords_car (truncated_box d) m = Inr b"
    using scale_coords_never_raise by blast
  with assms show ?thesis
    by (simp add: stage1_step_def bind_exc_def Let_def split: prod.splits)
qed

lemma stage1_retained:
  assumes "stage1 img m dets = Inr (Some c, conf)"
  shows "\<exists>d \<in> set dets. \<exists>b.
           servicer_scale_coords_car (truncated_box d) m = Inr b \<and> box_valid b \<and>
           c = crop_box img b \<and> conf = rconf d"
proof -
  let ?P = "\<lambda>st. fst st = None \<or>
      (\<exists>d \<in> set dets. \<exists>b. servicer_scale_coords_car (truncated_box d) m = Inr b \<and> box_valid b \<and>
         st = (Some (crop_box img b), rconf d))"
  have "?P (Some c, conf)"
  proof (rule fold_exc_invariant [where P = ?P])
    show "fold_exc (stage1_step img m) dets (None, 0) = Inr (Some c, conf)"
      using assms by (simp add: stage1_def)
    show "?P (None, 0)" by simp
  next
    fix t x t'
    assume x: "x \<in> set dets" and t: "?P t" and step: "stage1_step img m t x = Inr t'"
    from stage1_step_cases [OF step] show "?P t'"
    proof
      assume "t' = t"
      with t show ?thesis by simp
    next
      assume "\<exists>b. servicer_scale_coords_car (truncated_box x) m = Inr b \<and> box_valid b \<and>
              0 < frame_size (crop_box img b) \<and>
              CAR_CONFIDENCE_THRESHOLD < rconf x \<and> snd t < rconf x \<and>
              t' = (Some (crop_box img b), rconf x)"
      with x show ?thesis by blast
    qed
  qed
  then show ?thesis by auto
qed

section \<open>Stage 2: every valid detection\<close>

lemma stage2_step_cases:
  assumes "stage2_step cm mp labels st (i, d) = Inr st'"
  shows "st' = st \<or>
         (\<exists>r. scale_coords_plate (raw_box d) mp = Inr (x1 r, y1 r, x2 r, y2 r) \<and>
              box_valid (x1 r, y1 r, x2 r, y2 r) \<and>
              PLATE_CONFIDENCE_THRESHOLD \<le> rconf d \<and> confidence r = rconf d \<and>
              class_name r \<in> set [''num'', ''tun''] \<and>
              st' = (fst st @ [r], fst (snd st) + confidence r, snd (snd st) + 1))"
  using assms
  by (auto simp: stage2_step_def bind_exc_def box_valid_def Let_def
      split: prod.splits sum.splits if_splits)

lemma stage2_retained:
  assumes "stage2 cm mp dets labels = Inr (rel, s, n)"
  shows "\<forall>r \<in> set rel. box_valid (x1 r, y1 r, x2 r, y2 r) \<and>
           (\<exists>d \<in> set dets. scale_coords_plate (raw_box d) mp = Inr (x1 r, y1 r, x2 r, y2 r))"
proof -
  let ?Q = "\<lambda>r. box_valid (x1 r, y1 r, x2 r, y2 r) \<and>
           (\<exists>d \<in> set dets. scale_coords_plate (raw_box d) mp = Inr (x1 r, y1 r, x2 r, y2 r))"
  let ?P = "\<lambda>st. \<forall>r \<in> set (fst st). ?Q r"
  have "?P (rel, s, n)"
  proof (rule fold_exc_invariant [where P = ?P])
    show "fold_exc (stage2_step cm mp labels) (enumerate 0 dets) ([], 0, 0) = Inr (rel, s, n)"
      using assms by (simp add: stage2_def)
    show "?P ([], 0, 0)" by simp
  next
    fix t x t'
    assume x: "x \<in> set (enumerate 0 dets)" and t: "?P t"
      and step: "stage2_step cm mp labels t x = Inr t'"
    obtain i d where xd: "x = (i, d)" by (cases x)
    have d: "d \<in> set dets" using snd_in_enumerate [OF x] by (simp add: xd)
    from stage2_step_cases [OF step [unfolded xd]] show "?P t'"
    proof
      assume "t' = t"
      with t show ?thesis by simp
    next
      assume "\<exists>r. scale_coords_plate (raw_box d) mp = Inr (x1 r, y1 r, x2 r, y2 r) \<and>
              box_valid (x1 r, y1 r, x2 r, y2 r) \<and>
              PLATE_CONFIDENCE_THRESHOLD \<le> rconf d \<and> confidence r = rconf d \<and>
              class_name r \<in> set [''num'', ''tun''] \<and>
              t' = (fst t @ [r], fst (snd t) + confidence r, snd (snd t) + 1)"
      then obtain r where r: "scale_coords_plate (raw_box d) mp = Inr (x1 r, y1 r, x2 r, y2 r)"
        "box_valid (x1 r, y1 r, x2 r, y2 r)" "fst t' = fst t @ [r]"
        by auto
      with d have "?Q r" by blast
      with t r(3) show ?thesis by auto
    qed
  qed
  then show ?thesis by simp
qed

text \<open>The running sum and the counter of stage 2 are the sum of the confidences and the
  number of the retained detections.\<close>

lemma stage2_sums:
  assumes "stage2 cm mp dets labels = Inr (rel, s, n)"
  shows "s = sum_list (map confidence rel) \<and> n = length rel"
proof -
  let ?P = "\<lambda>st. fst (snd st) = sum_list (map confidence (fst st)) \<and> snd (snd st) = length (fst st)"
  have "?P (rel, s, n)"
  proof (rule fold_exc_invariant [where P = ?P])
    show "fold_exc (stage2_step cm mp labels) (enumerate 0 dets) ([], 0, 0) = Inr (rel, s, n)"
      using assms by (simp add: stage2_def)
    show "?P ([], 0, 0)" by simp
  next
    fix t x t'
    assume t: "?P t" and step: "stage2_step cm mp labels t x = Inr t'"
    obtain i d where xd: "x = (i, d)" by (cases x)
    from stage2_step_cases [OF step [unfolded xd]] t show "?P t'"
      by auto
  qed
  then show ?thesis by simp
qed

text \<open>One step of the loop of stage 1, in terms of the eligible detections.\<close>

lemma stage1_step_eligible:
  "stage1_step img m (b0, c0) d =
     Inr (if stage1_eligible img m d \<and> c0 < rconf d then (Some (stage1_crop img m d), rconf d)
          else (b0, c0))"
proof -
  obtain b where "servicer_scale_coords_car (truncated_box d) m = Inr b"
    using scale_coords_never_raise by blast
  then show ?thesis
    by (cases b)
      (simp add: stage1_step_def stage1_eligible_def stage1_crop_def bind_exc_def box_valid_def
        crop_box_def Let_def)
qed

text \<open>
  The best-single policy. The loop of stage 1 never raises. The confidence it ends with
  bounds the confidence of every eligible detection; when the state has changed, it holds
  the crop and the confidence of an eligible detection, and every eligible detection before
  that one has a smaller confidence: of several detections with the greatest confidence the
  first is kept.
\<close>

lemma stage1_loop_best_single:
  "\<exists>b c. fold_exc (stage1_step img m) ds (b0, c0) = Inr (b, c) \<and> c0 \<le> c \<and>
     (\<forall>d \<in> set ds. stage1_eligible img m d \<longrightarrow> rconf d \<le> c) \<and>
     ((b, c) = (b0, c0) \<or>
      (c0 < c \<and> (\<exists>i < length ds. stage1_eligible img m (ds ! i) \<and> rconf (ds ! i) = c \<and>
          b = Some (stage1_crop img m (ds ! i)) \<and>
          (\<forall>j < i. stage1_eligible img m (ds ! j) \<longrightarrow> rconf (ds ! j) < c))))"
proof (induction ds arbitrary: b0 c0)
  case Nil
  then show ?case by simp
next
  case (Cons d ds)
  let ?take = "stage1_eligible img m d \<and> c0 < rconf d"
  let ?b1 = "if ?take then Some (stage1_crop img m d) else b0"
  let ?c1 = "if ?take then rconf d else c0"
  have step: "stage1_step img m (b0, c0) d = Inr (?b1, ?c1)"
    by (simp add: stage1_step_eligible)
  from Cons.IH [of ?b1 ?c1] obtain b c where
    run: "fold_exc (stage1_step img m) ds (?b1, ?c1) = Inr (b, c)" and le: "?c1 \<le> c" and
    bound: "\<forall>x \<in> set ds. stage1_eligible img m x \<longrightarrow> rconf x \<le> c" and
    pick: "(b, c) = (?b1, ?c1) \<or>
      (?c1 < c \<and> (\<exists>i < length ds. stage1_eligible img m (ds ! i) \<and> rconf (ds ! i) = c \<and>
          b = Some (stage1_crop img m (ds ! i)) \<and>
          (\<forall>j < i. stage1_eligible img m (ds ! j) \<longrightarrow> rconf (ds ! j) < c)))"
    by blast
  have whole: "fold_exc (stage1_step img m) (d # ds) (b0, c0) = Inr (b, c)"
    by (simp add: step run)
  have c0: "c0 \<le> c" using le by (auto split: if_splits)
  have d_le: "stage1_eligible img m d \<Longrightarrow> rconf d \<le> c"
    using le by (auto split: if_splits)
  have bound': "\<forall>x \<in> set (d # ds). stage1_eligible img m x \<longrightarrow> rconf x \<le> c"
    using bound d_le by simp
  have pick': "(b, c) = (b0, c0) \<or>
      (c0 < c \<and> (\<exists>i < length (d # ds). stage1_eligible img m ((d # ds) ! i) \<and>
          rconf ((d # ds) ! i) = c \<and> b = Some (stage1_crop img m ((d # ds) ! i)) \<and>
          (\<forall>j < i. stage1_eligible img m ((d # ds) ! j) \<longrightarrow> rconf ((d # ds) ! j) < c)))"
    using pick
  proof
    assume same: "(b, c) = (?b1, ?c1)"
    show ?thesis
    proof (cases ?take)
      case True
      with same have "c0 < c" "stage1_eligible img m ((d # ds) ! 0)" "rconf ((d # ds) ! 0) = c"
        "b = Some (stage1_crop img m ((d # ds) ! 0))"
        by simp_all
      then show ?thesis by blast
    next
      case False
      with same show ?thesis by simp
    qed
  next
    assume later: "?c1 < c \<and> (\<exists>i < length ds. stage1_eligible img m (ds ! i) \<and> rconf (ds ! i) = c \<and>
          b = Some (stage1_crop img m (ds ! i)) \<and>
          (\<forall>j < i. stage1_eligible img m (ds ! j) \<longrightarrow> rconf (ds ! j) < c))"
    then obtain i where i: "i < length ds" "stage1_eligible img m (ds ! i)" "rconf (ds ! i) = c"
      "b = Some (stage1_crop img m (ds ! i))"
      "\<forall>j < i. stage1_eligible img m (ds ! j) \<longrightarrow> rconf (ds ! j) < c" and lt: "?c1 < c"
      by blast
    have c0_lt: "c0 < c" using lt by (auto split: if_splits)
    have d_lt: "stage1_eligible img m d \<Longrightarrow> rconf d < c"
      using lt by (auto split: if_splits)
    have before: "\<forall>j < Suc i. stage1_eligible img m ((d # ds) ! j) \<longrightarrow> rconf ((d # ds) ! j) < c"
    proof (intro allI impI)
      fix j assume "j < Suc i" and el: "stage1_eligible img m ((d # ds) ! j)"
      then show "rconf ((d # ds) ! j) < c"
        using i(5) d_lt by (cases j) auto
    qed
    have "Suc i < length (d # ds)" using i(1) by simp
    moreover have "stage1_eligible img m ((d # ds) ! Suc i)" "rconf ((d # ds) ! Suc i) = c"
      "b = Some (stage1_crop img m ((d # ds) ! Suc i))"
      using i(2-4) by simp_all
    ultimately show ?thesis using c0_lt before by blast
  qed
  from whole c0 bound' pick' show ?case by blast
qed

text \<open>
  Claim C4. Under both policies a retained detection has a mapped box with \<open>x_min < x_max\<close>
  and \<open>y_min < y_max\<close>, whatever its confidence. Stage 1 keeps a crop and a confidence: they
  are those of a detection of the input whose mapped box is valid. Every detection that stage
  2 retains carries the mapped box of a detection of the input, and that box is valid.
\<close>

theorem retained_boxes_valid:
  "(stage1 img m dets1 = Inr (Some c, conf) \<longrightarrow>
      (\<exists>d \<in> set dets1. \<exists>b.
         servicer_scale_coords_car (truncated_box d) m = Inr b \<and> box_valid b \<and>
         c = crop_box img b \<and> conf = rconf d)) \<and>
   (stage2 cm mp dets2 labels = Inr (rel, s, n) \<longrightarrow>
      (\<forall>r \<in> set rel. box_valid (x1 r, y1 r, x2 r, y2 r) \<and>
         (\<exists>d \<in> set dets2. scale_coords_plate (raw_box d) mp = Inr (x1 r, y1 r, x2 r, y2 r))))"
  using stage1_retained [of img m dets1 c conf] stage2_retained [of cm mp dets2 labels rel s n]
  by blast

lemma crop_2x2: "crop [[p, q], [r, s]] 0 2 0 2 = [[p, q], [r, s]]"
  by (simp add: crop_def py_slice_def slice_bound_def)

lemma frame_size_2x2: "frame_size [[p, q], [r, s]] = 12"
  by (simp add: frame_size_def frame_height_def frame_width_def)

text \<open>A frame of two by two pixels, letterboxed with scale 320. The second detection of each
  stage has the higher confidence and a box that is degenerate after the mapping; it is not
  retained.\<close>

lemma stage1_example:
  "stage1 [[0, 0], [0, 0 :: nat]]
     \<lparr>original_height = 2, original_width = 2, scale = 320, pad_top = 0, pad_left = 0\<rparr>
     [\<lparr>rx_min = 0, ry_min = 0, rx_max = 640, ry_max = 640, rconf = 81 / 100\<rparr>,
      \<lparr>rx_min = 700, ry_min = 0, rx_max = 650, ry_max = 10, rconf = 95 / 100\<rparr>]
   = Inr (Some [[0, 0], [0, 0]], 81 / 100)"
  by (simp add: stage1_def stage1_step_def truncated_box_def servicer_car_value bind_exc_def
      py_int_def CAR_CONFIDENCE_THRESHOLD_def crop_2x2 frame_size_2x2)

lemma stage2_example:
  "stage2 [0 \<mapsto> ''num'', 1 \<mapsto> ''tun'']
     \<lparr>original_h = 2, original_w = 2, plate_scale = 320, top_pad = 0, left_pad = 0\<rparr>
     [\<lparr>rx_min = 0, ry_min = 0, rx_max = 320, ry_max = 640, rconf = 9 / 10\<rparr>,
      \<lparr>rx_min = 400, ry_min = 0, rx_max = 350, ry_max = 640, rconf = 99 / 100\<rparr>,
      \<lparr>rx_min = 320, ry_min = 0, rx_max = 640, ry_max = 640, rconf = 7 / 10\<rparr>]
     [0, 1, 1]
   = Inr ([\<lparr>x1 = 0, y1 = 0, x2 = 1, y2 = 2, class_name = ''num'', confidence = 9 / 10,
            ocr_text = None\<rparr>,
           \<lparr>x1 = 1, y1 = 0, x2 = 2, y2 = 2, class_name = ''tun'', confidence = 7 / 10,
            ocr_text = None\<rparr>], 8 / 5, 2)"
  by (simp add: stage2_def enumerate_eq_zip upt_rec stage2_step_def raw_box_def plate_value
      bind_exc_def py_int_def PLATE_CONFIDENCE_THRESHOLD_def plate_class_name_def Let_def)

theorem retained_boxes_valid_witness:
  "stage1 [[0, 0], [0, 0 :: nat]]
     \<lparr>original_height = 2, original_width = 2, scale = 320, pad_top = 0, pad_left = 0\<rparr>
     [\<lparr>rx_min = 0, ry_min = 0, rx_max = 640, ry_max = 640, rconf = 81 / 100\<rparr>,
      \<lparr>rx_min = 700, ry_min = 0, rx_max = 650, ry_max = 10, rconf = 95 / 100\<rparr>]
   = Inr (Some [[0, 0], [0, 0]], 81 / 100) \<and>
   (\<exists>d b. servicer_scale_coords_car (truncated_box d)
             \<lparr>original_height = 2, original_width = 2, scale = 320, pad_top = 0, pad_left = 0\<rparr>
             = Inr b \<and> box_valid b \<and> rconf d = 81 / 100) \<and>
   (\<exists>rel s n.
      stage2 [0 \<mapsto> ''num'', 1 \<mapsto> ''tun'']
        \<lparr>original_h = 2, original_w = 2, plate_scale = 320, top_pad = 0, left_pad = 0\<rparr>
        [\<lparr>rx_min = 0, ry_min = 0, rx_max = 320, ry_max = 640, rconf = 9 / 10\<rparr>,
         \<lparr>rx_min = 400, ry_min = 0, rx_max = 350, ry_max = 640, rconf = 99 / 100\<rparr>,
         \<lparr>rx_min = 320, ry_min = 0, rx_max = 640, ry_max = 640, rconf = 7 / 10\<rparr>]
        [0, 1, 1] = Inr (rel, s, n) \<and>
      length rel = 2 \<and> box_valid (0, 0, 1, 2) \<and> box_valid (1, 0, 2, 2))"
proof -
  let ?img = "[[0, 0], [0, 0 :: nat]]"
  let ?m = "\<lparr>original_height = 2, original_width = 2, scale = 320, pad_top = 0, pad_left = 0\<rparr>"
  let ?dets1 = "[\<lparr>rx_min = 0, ry_min = 0, rx_max = 640, ry_max = 640, rconf = 81 / 100\<rparr>,
        \<lparr>rx_min = 700, ry_min = 0, rx_max = 650, ry_max = 10, rconf = 95 / 100\<rparr>]"
  let ?cm = "[0 \<mapsto> ''num'', 1 \<mapsto> ''tun'']"
  let ?mp = "\<lparr>original_h = 2, original_w = 2, plate_scale = 320, top_pad = 0, left_pad = 0\<rparr>"
  let ?dets2 = "[\<lparr>rx_min = 0, ry_min = 0, rx_max = 320, ry_max = 640, rconf = 9 / 10\<rparr>,
        \<lparr>rx_min = 400, ry_min = 0, rx_max = 350, ry_max = 640, rconf = 99 / 100\<rparr>,
        \<lparr>rx_min = 320, ry_min = 0, rx_max = 640, ry_max = 640, rconf = 7 / 10\<rparr>]"
  let ?rel = "[\<lparr>x1 = 0, y1 = 0, x2 = 1, y2 = 2, class_name = ''num'', confidence = 9 / 10,
         ocr_text = None\<rparr>,
        \<lparr>x1 = 1, y1 = 0, x2 = 2, y2 = 2, class_name = ''tun'', confidence = 7 / 10,
         ocr_text = None\<rparr>]"
  have both:
    "(\<exists>d \<in> set ?dets1. \<exists>b.
         servicer_scale_coords_car (truncated_box d) ?m = Inr b \<and> box_valid b \<and>
         ?img = crop_box ?img b \<and> 81 / 100 = rconf d) \<and>
     (\<forall>r \<in> set ?rel. box_valid (x1 r, y1 r, x2 r, y2 r) \<and>
         (\<exists>d \<in> set ?dets2. scale_coords_plate (raw_box d) ?mp = Inr (x1 r, y1 r, x2 r, y2 r)))"
    using retained_boxes_valid [of ?img ?m ?dets1 ?img "81 / 100" ?cm ?mp ?dets2 "[0, 1, 1]"
        ?rel "8 / 5" 2] stage1_example stage2_example
    by blast
  from both have a: "\<exists>d b. servicer_scale_coords_car (truncated_box d) ?m = Inr b \<and>
      box_valid b \<and> rconf d = 81 / 100"
    by metis
  from both have b: "box_valid (0, 0, 1, 2) \<and> box_valid (1, 0, 2, 2)"
    by simp
  from a b stage1_example stage2_example show ?thesis
    by (intro conjI exI [of _ ?rel] exI [of _ "8 / 5"] exI [of _ 2]) (assumption | simp)+
qed

section \<open>The aggregated confidence\<close>

lemma finish_confidence:
  assumes "rel \<noteq> []"
  shows "fst (snd (finish_detection rt crp c1 (rel, sum_list (map confidence rel), length rel))) =
           (c1 + sum_list (map confidence rel) / of_nat (length rel)) / 2"
  using assms by (simp add: finish_detection_def Let_def split: prod.splits)

text \<open>An invocation in which both stages succeed ends in \<open>finish_detection\<close>.\<close>

lemma perform_detection_reaches_finish:
  assumes "cv2_imdecode self image_bytes = Inr (Some image_bgr)"
    and "preprocess_image_car (frame_height image_bgr) (frame_width image_bgr)
           CAR_INPUT_HEIGHT CAR_INPUT_WIDTH = Inr m"
    and "compiled_car_model self image_bgr = Inr (Dets detections)"
    and "stage1 image_bgr m detections = Inr (Some best, c1)"
    and "plate_model_loaded self"
    and "preprocess_image_plate (frame_height (correct_rotation (cv2 self) best))
           (frame_width (correct_rotation (cv2 self) best))
           (plate_target_height self) (plate_target_width self) = Inr mp"
    and "compiled_plate_model self (correct_rotation (cv2 self) best) = Inr (dets, labels)"
    and "stage2 (class_map self) mp dets labels = Inr st"
  shows "perform_detection self image_bytes =
           finish_detection (ocr_readtext self) (correct_rotation (cv2 self) best) c1 st"
  by (simp add: perform_detection_def detection_body_def bind_exc_def assms Let_def)

text \<open>
  Claim C5. In an invocation whose stage 1 keeps a detection of confidence \<open>c1\<close> and whose
  stage 2 retains the detections \<open>rel\<close>, not none, the confidence that
  \<^verbatim>\<open>_perform_detection\<close> returns is the mean of \<open>c1\<close> and of the mean confidence of \<open>rel\<close>.
  The OCR reader of the servicer is replaced by an arbitrary one in the statement: the value
  does not depend on what the reader returns.
\<close>

theorem aggregated_confidence:
  assumes "cv2_imdecode self image_bytes = Inr (Some image_bgr)"
    and "preprocess_image_car (frame_height image_bgr) (frame_width image_bgr)
           CAR_INPUT_HEIGHT CAR_INPUT_WIDTH = Inr m"
    and "compiled_car_model self image_bgr = Inr (Dets detections)"
    and "stage1 image_bgr m detections = Inr (Some best, c1)"
    and "plate_model_loaded self"
    and "preprocess_image_plate (frame_height (correct_rotation (cv2 self) best))
           (frame_width (correct_rotation (cv2 self) best))
           (plate_target_height self) (plate_target_width self) = Inr mp"
    and "compiled_plate_model self (correct_rotation (cv2 self) best) = Inr (dets, labels)"
    and "stage2 (class_map self) mp dets labels = Inr (rel, s, n)"
    and "rel \<noteq> []"
  shows "fst (snd (perform_detection (self\<lparr>ocr_readtext := reader\<rparr>) image_bytes)) =
           (c1 + sum_list (map confidence rel) / of_nat (length rel)) / 2"
proof -
  let ?self = "self\<lparr>ocr_readtext := reader\<rparr>"
  have "perform_detection ?self image_bytes =
          finish_detection (ocr_readtext ?self) (correct_rotation (cv2 ?self) best) c1 (rel, s, n)"
    using assms(1-8)
    by (intro perform_detection_reaches_finish
        [where image_bgr = image_bgr and m = m and mp = mp and detections = detections
          and dets = dets and labels = labels]) simp_all
  moreover have "s = sum_list (map confidence rel)" and "n = length rel"
    using stage2_sums [OF assms(8)] by simp_all
  ultimately show ?thesis
    using finish_confidence [OF assms(9)] by simp
qed

lemma prep_car_2x2:
  "preprocess_image_car (frame_height [[0, 0], [0, 0 :: nat]]) (frame_width [[0, 0], [0, 0 :: nat]])
     CAR_INPUT_HEIGHT CAR_INPUT_WIDTH =
   Inr \<lparr>original_height = 2, original_width = 2, scale = 320, pad_top = 0, pad_left = 0\<rparr>"
  by (simp add: preprocess_image_car_def frame_height_def frame_width_def CAR_INPUT_HEIGHT_def
      CAR_INPUT_WIDTH_def bind_exc_def py_truediv_def py_round_def Let_def)

lemma prep_plate_2x2:
  "preprocess_image_plate (frame_height [[0, 0], [0, 0 :: nat]]) (frame_width [[0, 0], [0, 0 :: nat]])
     640 640 =
   Inr \<lparr>original_h = 2, original_w = 2, plate_scale = 320, top_pad = 0, left_pad = 0\<rparr>"
  by (simp add: preprocess_image_plate_def frame_height_def frame_width_def
      bind_exc_def py_truediv_def py_int_def Let_def)

lemma no_contours_no_rotation:
  "find_contours ops img = Inr [] \<Longrightarrow> correct_rotation ops img = img"
  by (simp add: correct_rotation_def detect_and_correct_rotation_def rotation_body_def
      bind_exc_def)

theorem aggregated_confidence_witness:
  "fst (snd (perform_detection
     \<lparr>cv2_imdecode = (\<lambda>bs. Inr (Some [[0, 0], [0, 0 :: nat]])),
      compiled_car_model = (\<lambda>f. Inr (Dets
        [\<lparr>rx_min = 0, ry_min = 0, rx_max = 640, ry_max = 640, rconf = 81 / 100\<rparr>,
         \<lparr>rx_min = 700, ry_min = 0, rx_max = 650, ry_max = 10, rconf = 95 / 100\<rparr>])),
      cv2 = \<lparr>find_contours = (\<lambda>f. Inr ([] :: unit list)),
             min_area_rect_angle = (\<lambda>cs. Inr 0),
             warp_affine = (\<lambda>f a. Inr f)\<rparr>,
      plate_model_loaded = True,
      plate_target_height = 640,
      plate_target_width = 640,
      compiled_plate_model = (\<lambda>f. Inr
        ([\<lparr>rx_min = 0, ry_min = 0, rx_max = 320, ry_max = 640, rconf = 9 / 10\<rparr>,
          \<lparr>rx_min = 400, ry_min = 0, rx_max = 350, ry_max = 640, rconf = 99 / 100\<rparr>,
          \<lparr>rx_min = 320, ry_min = 0, rx_max = 640, ry_max = 640, rconf = 7 / 10\<rparr>],
         [0, 1, 1])),
      class_map = [0 \<mapsto> ''num'', 1 \<mapsto> ''tun''],
      ocr_readtext = (\<lambda>f. Inr [''1234''])\<rparr> [255, 216]))
   = 161 / 200"
proof -
  let ?img = "[[0, 0], [0, 0 :: nat]]"
  let ?ops = "\<lparr>find_contours = (\<lambda>f :: nat frame. Inr ([] :: unit list)),
             min_area_rect_angle = (\<lambda>cs. Inr 0),
             warp_affine = (\<lambda>f a. Inr f)\<rparr>"
  let ?self = "\<lparr>cv2_imdecode = (\<lambda>bs. Inr (Some ?img)),
      compiled_car_model = (\<lambda>f. Inr (Dets
        [\<lparr>rx_min = 0, ry_min = 0, rx_max = 640, ry_max = 640, rconf = 81 / 100\<rparr>,
         \<lparr>rx_min = 700, ry_min = 0, rx_max = 650, ry_max = 10, rconf = 95 / 100\<rparr>])),
      cv2 = ?ops,
      plate_model_loaded = True,
      plate_target_height = 640,
      plate_target_width = 640,
      compiled_plate_model = (\<lambda>f. Inr
        ([\<lparr>rx_min = 0, ry_min = 0, rx_max = 320, ry_max = 640, rconf = 9 / 10\<rparr>,
          \<lparr>rx_min = 400, ry_min = 0, rx_max = 350, ry_max = 640, rconf = 99 / 100\<rparr>,
          \<lparr>rx_min = 320, ry_min = 0, rx_max = 640, ry_max = 640, rconf = 7 / 10\<rparr>],
         [0, 1, 1])),
      class_map = [0 \<mapsto> ''num'', 1 \<mapsto> ''tun''],
      ocr_readtext = (\<lambda>f. Inr [''1234''])\<rparr>"
  have rot: "correct_rotation (cv2 ?self) ?img = ?img"
    by (rule no_contours_no_rotation) simp
  have h1: "cv2_imdecode ?self [255, 216] = Inr (Some ?img)" by simp
  have h2: "preprocess_image_car (frame_height ?img) (frame_width ?img)
      CAR_INPUT_HEIGHT CAR_INPUT_WIDTH =
      Inr \<lparr>original_height = 2, original_width = 2, scale = 320, pad_top = 0, pad_left = 0\<rparr>"
    by (rule prep_car_2x2)
  have h3: "compiled_car_model ?self ?img = Inr (Dets
        [\<lparr>rx_min = 0, ry_min = 0, rx_max = 640, ry_max = 640, rconf = 81 / 100\<rparr>,
         \<lparr>rx_min = 700, ry_min = 0, rx_max = 650, ry_max = 10, rconf = 95 / 100\<rparr>])"
    by simp
  have h5: "plate_model_loaded ?self" by simp
  have h6: "preprocess_image_plate (frame_height (correct_rotation (cv2 ?self) ?img))
      (frame_width (correct_rotation (cv2 ?self) ?img))
      (plate_target_height ?self) (plate_target_width ?self) =
      Inr \<lparr>original_h = 2, original_w = 2, plate_scale = 320, top_pad = 0, left_pad = 0\<rparr>"
    unfolding rot using prep_plate_2x2 by simp
  have h7: "compiled_plate_model ?self (correct_rotation (cv2 ?self) ?img) = Inr
        ([\<lparr>rx_min = 0, ry_min = 0, rx_max = 320, ry_max = 640, rconf = 9 / 10\<rparr>,
          \<lparr>rx_min = 400, ry_min = 0, rx_max = 350, ry_max = 640, rconf = 99 / 100\<rparr>,
          \<lparr>rx_min = 320, ry_min = 0, rx_max = 640, ry_max = 640, rconf = 7 / 10\<rparr>],
         [0, 1, 1])"
    by simp
  have h8: "stage2 (class_map ?self)
      \<lparr>original_h = 2, original_w = 2, plate_scale = 320, top_pad = 0, left_pad = 0\<rparr>
      [\<lparr>rx_min = 0, ry_min = 0, rx_max = 320, ry_max = 640, rconf = 9 / 10\<rparr>,
       \<lparr>rx_min = 400, ry_min = 0, rx_max = 350, ry_max = 640, rconf = 99 / 100\<rparr>,
       \<lparr>rx_min = 320, ry_min = 0, rx_max = 640, ry_max = 640, rconf = 7 / 10\<rparr>]
      [0, 1, 1] =
      Inr ([\<lparr>x1 = 0, y1 = 0, x2 = 1, y2 = 2, class_name = ''num'', confidence = 9 / 10,
              ocr_text = None\<rparr>,
            \<lparr>x1 = 1, y1 = 0, x2 = 2, y2 = 2, class_name = ''tun'', confidence = 7 / 10,
              ocr_text = None\<rparr>], 8 / 5, 2)"
    using stage2_example by simp
  have h9: "[\<lparr>x1 = 0, y1 = 0, x2 = 1, y2 = 2, class_name = ''num'', confidence = 9 / 10,
              ocr_text = None\<rparr>,
            \<lparr>x1 = 1, y1 = 0, x2 = 2, y2 = 2, class_name = ''tun'', confidence = 7 / 10,
              ocr_text = None\<rparr>] \<noteq> []"
    by simp
  from aggregated_confidence [OF h1 h2 h3 stage1_example h5 h6 h7 h8 h9, of "\<lambda>f. Inr [''1234'']"]
  show ?thesis by simp
qed

section \<open>The stage 1 threshold\<close>

text \<open>
  Claim C3. The numeric test of stage 1 is \<^verbatim>\<open>confidence > self.CAR_CONFIDENCE_THRESHOLD\<close>:
  a detection whose confidence equals the threshold 0.53 is discarded, so that stage 1 ends
  without a crop, whatever the frame and the context. Stage 2 tests with \<^verbatim>\<open>>=\<close> and retains
  a detection whose confidence equals its threshold 0.54.
\<close>

theorem stage1_discards_threshold_confidence:
  "stage1 img m [\<lparr>rx_min = 100, ry_min = 200, rx_max = 500, ry_max = 260, rconf = 53 / 100\<rparr>]
     = Inr (None, 0) \<and>
   stage2 [0 \<mapsto> ''num'', 1 \<mapsto> ''tun'']
     \<lparr>original_h = 2, original_w = 2, plate_scale = 320, top_pad = 0, left_pad = 0\<rparr>
     [\<lparr>rx_min = 0, ry_min = 0, rx_max = 320, ry_max = 640, rconf = 54 / 100\<rparr>] [0]
     = Inr ([\<lparr>x1 = 0, y1 = 0, x2 = 1, y2 = 2, class_name = ''num'', confidence = 54 / 100,
              ocr_text = None\<rparr>], 54 / 100, 1)"
  by (simp add: stage1_def stage1_step_def CAR_CONFIDENCE_THRESHOLD_def
      stage2_def enumerate_eq_zip upt_rec stage2_step_def raw_box_def plate_value
      bind_exc_def py_int_def PLATE_CONFIDENCE_THRESHOLD_def plate_class_name_def Let_def)

section \<open>Assembly\<close>

lemma py_repr_list_Nil: "py_repr_list [] = ''[]''"
  by (simp add: py_repr_list_def)

text \<open>A sequence of class names that is none of the three patterns gives the result
  \<open>Pattern Error\<close>, whose message holds the sequence.\<close>

lemma assemble_plate_unrecognized:
  assumes "map class_name ds \<noteq> [''num'', ''tun'', ''num'']"
    and "map class_name ds \<noteq> [''num'', ''tun'']"
    and "map class_name ds \<noteq> [''tun'', ''num'']"
  shows "assemble_plate ds =
           (''Pattern Error'',
            Some (''Unrecognized plate pattern: '' @ py_repr_list (map class_name ds)))"
  using assms by (simp add: assemble_plate_def Let_def)

text \<open>When stage 2 retains nothing the pipeline ends before the assembly.\<close>

lemma finish_detection_no_fields:
  "finish_detection rt crp c1 ([], s, n) = ([], c1, Some ''No characters detected in Stage 2'')"
  by (simp add: finish_detection_def)

text \<open>A result with an error message is not a success.\<close>

lemma DetectPlate_error_not_success:
  "snd (snd (perform_detection self bytes)) \<noteq> None \<Longrightarrow> \<not> success (DetectPlate self bytes)"
  by (auto simp: DetectPlate_def split: prod.splits)

text \<open>The assembly alone, given the empty list, takes the branch of an unrecognised pattern.
  The pipeline never gives it that list.\<close>

lemma assemble_plate_empty:
  "assemble_plate [] = (''Pattern Error'', Some ''Unrecognized plate pattern: []'')"
  by (simp add: assemble_plate_def py_repr_list_def Let_def)

text \<open>The OCR loop changes the recognised text only.\<close>

lemma ocr_step_class_name: "class_name (ocr_step rt crp d) = class_name d"
  by (simp add: ocr_step_def Let_def split: sum.splits)

lemma ocr_loop_class_names: "map class_name (map (ocr_step rt crp) ds) = map class_name ds"
  by (simp add: ocr_step_class_name)

text \<open>From a list that is not empty the pipeline goes on to the assembly; a sequence that is
  none of the three patterns ends in \<open>Pattern Error\<close>.\<close>

lemma finish_detection_unrecognized:
  assumes "rel \<noteq> []"
    and "map class_name (sort_key x1 rel) \<noteq> [''num'', ''tun'', ''num'']"
    and "map class_name (sort_key x1 rel) \<noteq> [''num'', ''tun'']"
    and "map class_name (sort_key x1 rel) \<noteq> [''tun'', ''num'']"
  shows "fst (finish_detection rt crp c1 (rel, s, n)) = ''Pattern Error'' \<and>
         snd (snd (finish_detection rt crp c1 (rel, s, n))) =
           Some (''Unrecognized plate pattern: '' @
                 py_repr_list (map class_name (sort_key x1 rel)))"
proof -
  have "assemble_plate (map (ocr_step rt crp) (sort_key x1 rel)) =
          (''Pattern Error'',
           Some (''Unrecognized plate pattern: '' @
                 py_repr_list (map class_name (sort_key x1 rel))))"
    using assemble_plate_unrecognized [of "map (ocr_step rt crp) (sort_key x1 rel)"] assms(2-4)
    unfolding ocr_loop_class_names by blast
  with assms(1) show ?thesis
    by (simp add: finish_detection_def Let_def)
qed

text \<open>The text of a list that is not empty is not \<open>[]\<close>.\<close>

lemma py_join_head: "\<exists>r. py_join sep ((c # cs) # ps) = c # r"
  by (cases ps) simp_all

lemma py_repr_list_nonempty: "xs \<noteq> [] \<Longrightarrow> py_repr_list xs \<noteq> ''[]''"
proof -
  assume "xs \<noteq> []"
  then obtain y ys where xs: "xs = y # ys" by (cases xs) auto
  obtain r where "py_join '', '' (map py_repr_str xs) = CHR 0x27 # r"
    using py_join_head [of "'', ''" "CHR 0x27" "y @ [CHR 0x27]" "map py_repr_str ys"]
    by (auto simp: xs py_repr_str_def)
  then show ?thesis by (simp add: py_repr_list_def)
qed

lemma assemble_plate_message:
  assumes "ds \<noteq> []"
  shows "snd (assemble_plate ds) \<noteq> Some ''Unrecognized plate pattern: []''"
proof -
  have "py_repr_list (map class_name ds) \<noteq> ''[]''"
    using assms by (simp add: py_repr_list_nonempty)
  then show ?thesis
    by (simp add: assemble_plate_def Let_def)
qed

lemma finish_detection_message:
  "snd (snd (finish_detection rt crp c1 st)) \<noteq> Some ''Unrecognized plate pattern: []''"
proof -
  obtain rel s n where st: "st = (rel, s, n)" by (cases st)
  show ?thesis
  proof (cases "rel = []")
    case True
    then show ?thesis by (simp add: st finish_detection_def)
  next
    case False
    then have "map (ocr_step rt crp) (sort_key x1 rel) \<noteq> []"
      by (metis length_0_conv length_map length_sort)
    from assemble_plate_message [OF this] False show ?thesis
      by (cases "assemble_plate (map (ocr_step rt crp) (sort_key x1 rel))")
        (simp add: st finish_detection_def Let_def)
  qed
qed

text \<open>No invocation returns the diagnostic of an unrecognised pattern for the empty
  sequence.\<close>

lemma perform_detection_never_empty_pattern:
  "snd (snd (perform_detection self image_bytes)) \<noteq> Some ''Unrecognized plate pattern: []''"
proof (cases "detection_body self image_bytes")
  case (Inl e)
  then show ?thesis by (simp add: perform_detection_def)
next
  case (Inr r)
  have "snd (snd r) \<noteq> Some ''Unrecognized plate pattern: []''"
    using Inr
    by (auto simp: detection_body_def bind_exc_def Let_def finish_detection_message
        split: sum.splits option.splits car_tensor.splits prod.splits if_splits)
  with Inr show ?thesis by (simp add: perform_detection_def)
qed

lemma stage2_example_below:
  "stage2 [0 \<mapsto> ''num'', 1 \<mapsto> ''tun'']
     \<lparr>original_h = 2, original_w = 2, plate_scale = 320, top_pad = 0, left_pad = 0\<rparr>
     [\<lparr>rx_min = 0, ry_min = 0, rx_max = 320, ry_max = 640, rconf = 1 / 2\<rparr>] [0]
   = Inr ([], 0, 0)"
  by (simp add: stage2_def enumerate_eq_zip upt_rec stage2_step_def
      PLATE_CONFIDENCE_THRESHOLD_def Let_def)

lemma stage2_example_tun:
  "stage2 [0 \<mapsto> ''num'', 1 \<mapsto> ''tun'']
     \<lparr>original_h = 2, original_w = 2, plate_scale = 320, top_pad = 0, left_pad = 0\<rparr>
     [\<lparr>rx_min = 0, ry_min = 0, rx_max = 320, ry_max = 640, rconf = 9 / 10\<rparr>] [1]
   = Inr ([\<lparr>x1 = 0, y1 = 0, x2 = 1, y2 = 2, class_name = ''tun'', confidence = 9 / 10,
            ocr_text = None\<rparr>], 9 / 10, 1)"
  by (simp add: stage2_def enumerate_eq_zip upt_rec stage2_step_def raw_box_def plate_value
      bind_exc_def py_int_def PLATE_CONFIDENCE_THRESHOLD_def plate_class_name_def Let_def)

text \<open>A servicer for a frame of two by two pixels: stage 1 keeps the whole frame with
  confidence 0.81, no contour is found, and the stage 2 model returns \<open>pm\<close>.\<close>

lemma example_servicer:
  fixes pm :: "detection_row list \<times> int list"
  shows "cv2_imdecode (\<lparr>cv2_imdecode = (\<lambda>bs. Inr (Some [[0, 0], [0, 0 :: nat]])),
      compiled_car_model = (\<lambda>f. Inr (Dets
        [\<lparr>rx_min = 0, ry_min = 0, rx_max = 640, ry_max = 640, rconf = 81 / 100\<rparr>,
         \<lparr>rx_min = 700, ry_min = 0, rx_max = 650, ry_max = 10, rconf = 95 / 100\<rparr>])),
      cv2 = \<lparr>find_contours = (\<lambda>f. Inr ([] :: unit list)),
             min_area_rect_angle = (\<lambda>cs. Inr 0),
             warp_affine = (\<lambda>f a. Inr f)\<rparr>,
      plate_model_loaded = True,
      plate_target_height = 640,
      plate_target_width = 640,
      compiled_plate_model = (\<lambda>f. Inr pm),
      class_map = [0 \<mapsto> ''num'', 1 \<mapsto> ''tun''],
      ocr_readtext = (\<lambda>f. Inr [''1234''])\<rparr>) [255, 216] = Inr (Some [[0, 0], [0, 0 :: nat]]) \<and>
    preprocess_image_car (frame_height [[0, 0], [0, 0 :: nat]]) (frame_width [[0, 0], [0, 0 :: nat]])
      CAR_INPUT_HEIGHT CAR_INPUT_WIDTH = Inr \<lparr>original_height = 2, original_width = 2, scale = 320, pad_top = 0, pad_left = 0\<rparr> \<and>
    compiled_car_model (\<lparr>cv2_imdecode = (\<lambda>bs. Inr (Some [[0, 0], [0, 0 :: nat]])),
      compiled_car_model = (\<lambda>f. Inr (Dets
        [\<lparr>rx_min = 0, ry_min = 0, rx_max = 640, ry_max = 640, rconf = 81 / 100\<rparr>,
         \<lparr>rx_min = 700, ry_min = 0, rx_max = 650, ry_max = 10, rconf = 95 / 100\<rparr>])),
      cv2 = \<lparr>find_contours = (\<lambda>f. Inr ([] :: unit list)),
             min_area_rect_angle = (\<lambda>cs. Inr 0),
             warp_affine = (\<lambda>f a. Inr f)\<rparr>,
      plate_model_loaded = True,
      plate_target_height = 640,
      plate_target_width = 640,
      compiled_plate_model = (\<lambda>f. Inr pm),
      class_map = [0 \<mapsto> ''num'', 1 \<mapsto> ''tun''],
      ocr_readtext = (\<lambda>f. Inr [''1234''])\<rparr>) [[0, 0], [0, 0 :: nat]] = Inr (Dets [\<lparr>rx_min = 0, ry_min = 0, rx_max = 640, ry_max = 640, rconf = 81 / 100\<rparr>,
         \<lparr>rx_min = 700, ry_min = 0, rx_max = 650, ry_max = 10, rconf = 95 / 100\<rparr>]) \<and>
    stage1 [[0, 0], [0, 0 :: nat]] \<lparr>original_height = 2, original_width = 2, scale = 320, pad_top = 0, pad_left = 0\<rparr> [\<lparr>rx_min = 0, ry_min = 0, rx_max = 640, ry_max = 640, rconf = 81 / 100\<rparr>,
         \<lparr>rx_min = 700, ry_min = 0, rx_max = 650, ry_max = 10, rconf = 95 / 100\<rparr>] = Inr (Some [[0, 0], [0, 0 :: nat]], 81 / 100) \<and>
    plate_model_loaded (\<lparr>cv2_imdecode = (\<lambda>bs. Inr (Some [[0, 0], [0, 0 :: nat]])),
      compiled_car_model = (\<lambda>f. Inr (Dets
        [\<lparr>rx_min = 0, ry_min = 0, rx_max = 640, ry_max = 640, rconf = 81 / 100\<rparr>,
         \<lparr>rx_min = 700, ry_min = 0, rx_max = 650, ry_max = 10, rconf = 95 / 100\<rparr>])),
      cv2 = \<lparr>find_contours = (\<lambda>f. Inr ([] :: unit list)),
             min_area_rect_angle = (\<lambda>cs. Inr 0),
             warp_affine = (\<lambda>f a. Inr f)\<rparr>,
      plate_model_loaded = True,
      plate_target_height = 640,
      plate_target_width = 640,
      compiled_plate_model = (\<lambda>f. Inr pm),
      class_map = [0 \<mapsto> ''num'', 1 \<mapsto> ''tun''],
      ocr_readtext = (\<lambda>f. Inr [''1234''])\<rparr>) \<and>
    preprocess_image_plate
      (frame_height (correct_rotation (cv2 (\<lparr>cv2_imdecode = (\<lambda>bs. Inr (Some [[0, 0], [0, 0 :: nat]])),
      compiled_car_model = (\<lambda>f. Inr (Dets
        [\<lparr>rx_min = 0, ry_min = 0, rx_max = 640, ry_max = 640, rconf = 81 / 100\<rparr>,
         \<lparr>rx_min = 700, ry_min = 0, rx_max = 650, ry_max = 10, rconf = 95 / 100\<rparr>])),
      cv2 = \<lparr>find_contours = (\<lambda>f. Inr ([] :: unit list)),
             min_area_rect_angle = (\<lambda>cs. Inr 0),
             warp_affine = (\<lambda>f a. Inr f)\<rparr>,
      plate_model_loaded = True,
      plate_target_height = 640,
      plate_target_width = 640,
      compiled_plate_model = (\<lambda>f. Inr pm),
      class_map = [0 \<mapsto> ''num'', 1 \<mapsto> ''tun''],
      ocr_readtext = (\<lambda>f. Inr [''1234''])\<rparr>)) [[0, 0], [0, 0 :: nat]]))
      (frame_width (correct_rotation (cv2 (\<lparr>cv2_imdecode = (\<lambda>bs. Inr (Some [[0, 0], [0, 0 :: nat]])),
      compiled_car_model = (\<lambda>f. Inr (Dets
        [\<lparr>rx_min = 0, ry_min = 0, rx_max = 640, ry_max = 640, rconf = 81 / 100\<rparr>,
         \<lparr>rx_min = 700, ry_min = 0, rx_max = 650, ry_max = 10, rconf = 95 / 100\<rparr>])),
      cv2 = \<lparr>find_contours = (\<lambda>f. Inr ([] :: unit list)),
             min_area_rect_angle = (\<lambda>cs. Inr 0),
             warp_affine = (\<lambda>f a. Inr f)\<rparr>,
      plate_model_loaded = True,
      plate_target_height = 640,
      plate_target_width = 640,
      compiled_plate_model = (\<lambda>f. Inr pm),
      class_map = [0 \<mapsto> ''num'', 1 \<mapsto> ''tun''],
      ocr_readtext = (\<lambda>f. Inr [''1234''])\<rparr>)) [[0, 0], [0, 0 :: nat]]))
      (plate_target_height (\<lparr>cv2_imdecode = (\<lambda>bs. Inr (Some [[0, 0], [0, 0 :: nat]])),
      compiled_car_model = (\<lambda>f. Inr (Dets
        [\<lparr>rx_min = 0, ry_min = 0, rx_max = 640, ry_max = 640, rconf = 81 / 100\<rparr>,
         \<lparr>rx_min = 700, ry_min = 0, rx_max = 650, ry_max = 10, rconf = 95 / 100\<rparr>])),
      cv2 = \<lparr>find_contours = (\<lambda>f. Inr ([] :: unit list)),
             min_area_rect_angle = (\<lambda>cs. Inr 0),
             warp_affine = (\<lambda>f a. Inr f)\<rparr>,
      plate_model_loaded = True,
      plate_target_height = 640,
      plate_target_width = 640,
      compiled_plate_model = (\<lambda>f. Inr pm),
      class_map = [0 \<mapsto> ''num'', 1 \<mapsto> ''tun''],
      ocr_readtext = (\<lambda>f. Inr [''1234''])\<rparr>)) (plate_target_width (\<lparr>cv2_imdecode = (\<lambda>bs. Inr (Some [[0, 0], [0, 0 :: nat]])),
      compiled_car_model = (\<lambda>f. Inr (Dets
        [\<lparr>rx_min = 0, ry_min = 0, rx_max = 640, ry_max = 640, rconf = 81 / 100\<rparr>,
         \<lparr>rx_min = 700, ry_min = 0, rx_max = 650, ry_max = 10, rconf = 95 / 100\<rparr>])),
      cv2 = \<lparr>find_contours = (\<lambda>f. Inr ([] :: unit list)),
             min_area_rect_angle = (\<lambda>cs. Inr 0),
             warp_affine = (\<lambda>f a. Inr f)\<rparr>,
      plate_model_loaded = True,
      plate_target_height = 640,
      plate_target_width = 640,
      compiled_plate_model = (\<lambda>f. Inr pm),
      class_map = [0 \<mapsto> ''num'', 1 \<mapsto> ''tun''],
      ocr_readtext = (\<lambda>f. Inr [''1234''])\<rparr>)) = Inr \<lparr>original_h = 2, original_w = 2, plate_scale = 320, top_pad = 0, left_pad = 0\<rparr> \<and>
    compiled_plate_model (\<lparr>cv2_imdecode = (\<lambda>bs. Inr (Some [[0, 0], [0, 0 :: nat]])),
      compiled_car_model = (\<lambda>f. Inr (Dets
        [\<lparr>rx_min = 0, ry_min = 0, rx_max = 640, ry_max = 640, rconf = 81 / 100\<rparr>,
         \<lparr>rx_min = 700, ry_min = 0, rx_max = 650, ry_max = 10, rconf = 95 / 100\<rparr>])),
      cv2 = \<lparr>find_contours = (\<lambda>f. Inr ([] :: unit list)),
             min_area_rect_angle = (\<lambda>cs. Inr 0),
             warp_affine = (\<lambda>f a. Inr f)\<rparr>,
      plate_model_loaded = True,
      plate_target_height = 640,
      plate_target_width = 640,
      compiled_plate_model = (\<lambda>f. Inr pm),
      class_map = [0 \<mapsto> ''num'', 1 \<mapsto> ''tun''],
      ocr_readtext = (\<lambda>f. Inr [''1234''])\<rparr>) (correct_rotation (cv2 (\<lparr>cv2_imdecode = (\<lambda>bs. Inr (Some [[0, 0], [0, 0 :: nat]])),
      compiled_car_model = (\<lambda>f. Inr (Dets
        [\<lparr>rx_min = 0, ry_min = 0, rx_max = 640, ry_max = 640, rconf = 81 / 100\<rparr>,
         \<lparr>rx_min = 700, ry_min = 0, rx_max = 650, ry_max = 10, rconf = 95 / 100\<rparr>])),
      cv2 = \<lparr>find_contours = (\<lambda>f. Inr ([] :: unit list)),
             min_area_rect_angle = (\<lambda>cs. Inr 0),
             warp_affine = (\<lambda>f a. Inr f)\<rparr>,
      plate_model_loaded = True,
      plate_target_height = 640,
      plate_target_width = 640,
      compiled_plate_model = (\<lambda>f. Inr pm),
      class_map = [0 \<mapsto> ''num'', 1 \<mapsto> ''tun''],
      ocr_readtext = (\<lambda>f. Inr [''1234''])\<rparr>)) [[0, 0], [0, 0 :: nat]]) = Inr pm"
proof -
  have rot: "correct_rotation (cv2 (\<lparr>cv2_imdecode = (\<lambda>bs. Inr (Some [[0, 0], [0, 0 :: nat]])),
      compiled_car_model = (\<lambda>f. Inr (Dets
        [\<lparr>rx_min = 0, ry_min = 0, rx_max = 640, ry_max = 640, rconf = 81 / 100\<rparr>,
         \<lparr>rx_min = 700, ry_min = 0, rx_max = 650, ry_max = 10, rconf = 95 / 100\<rparr>])),
      cv2 = \<lparr>find_contours = (\<lambda>f. Inr ([] :: unit list)),
             min_area_rect_angle = (\<lambda>cs. Inr 0),
             warp_affine = (\<lambda>f a. Inr f)\<rparr>,
      plate_model_loaded = True,
      plate_target_height = 640,
      plate_target_width = 640,
      compiled_plate_model = (\<lambda>f. Inr pm),
      class_map = [0 \<mapsto> ''num'', 1 \<mapsto> ''tun''],
      ocr_readtext = (\<lambda>f. Inr [''1234''])\<rparr>)) [[0, 0], [0, 0 :: nat]] = [[0, 0], [0, 0 :: nat]]"
    by (rule no_contours_no_rotation) simp
  show ?thesis
    unfolding rot using prep_car_2x2 prep_plate_2x2 stage1_example by simp
qed

text \<open>
  Claim C6, as stated, fails. In this invocation stage 1 keeps a crop with confidence 0.81 and
  the only row of stage 2 has confidence 0.5, below the threshold, so the list of retained
  detections is empty. \<^verbatim>\<open>_perform_detection\<close> returns the empty plate string and the message
  \<open>No characters detected in Stage 2\<close> (line 579); it does not return the result of an
  unrecognised pattern.
\<close>

theorem empty_list_not_pattern_error:
  "perform_detection
     \<lparr>cv2_imdecode = (\<lambda>bs. Inr (Some [[0, 0], [0, 0 :: nat]])),
      compiled_car_model = (\<lambda>f. Inr (Dets
        [\<lparr>rx_min = 0, ry_min = 0, rx_max = 640, ry_max = 640, rconf = 81 / 100\<rparr>,
         \<lparr>rx_min = 700, ry_min = 0, rx_max = 650, ry_max = 10, rconf = 95 / 100\<rparr>])),
      cv2 = \<lparr>find_contours = (\<lambda>f. Inr ([] :: unit list)),
             min_area_rect_angle = (\<lambda>cs. Inr 0),
             warp_affine = (\<lambda>f a. Inr f)\<rparr>,
      plate_model_loaded = True,
      plate_target_height = 640,
      plate_target_width = 640,
      compiled_plate_model = (\<lambda>f. Inr
        ([\<lparr>rx_min = 0, ry_min = 0, rx_max = 320, ry_max = 640, rconf = 1 / 2\<rparr>], [0])),
      class_map = [0 \<mapsto> ''num'', 1 \<mapsto> ''tun''],
      ocr_readtext = (\<lambda>f. Inr [''1234''])\<rparr> [255, 216]
   = ([], 81 / 100, Some ''No characters detected in Stage 2'') \<and>
   ([], 81 / 100, Some ''No characters detected in Stage 2'') \<noteq>
     (''Pattern Error'', 81 / 100 :: real, Some ''Unrecognized plate pattern: []'')"
proof -
  have "perform_detection (\<lparr>cv2_imdecode = (\<lambda>bs. Inr (Some [[0, 0], [0, 0 :: nat]])),
      compiled_car_model = (\<lambda>f. Inr (Dets
        [\<lparr>rx_min = 0, ry_min = 0, rx_max = 640, ry_max = 640, rconf = 81 / 100\<rparr>,
         \<lparr>rx_min = 700, ry_min = 0, rx_max = 650, ry_max = 10, rconf = 95 / 100\<rparr>])),
      cv2 = \<lparr>find_contours = (\<lambda>f. Inr ([] :: unit list)),
             min_area_rect_angle = (\<lambda>cs. Inr 0),
             warp_affine = (\<lambda>f a. Inr f)\<rparr>,
      plate_model_loaded = True,
      plate_target_height = 640,
      plate_target_width = 640,
      compiled_plate_model = (\<lambda>f. Inr ([\<lparr>rx_min = 0, ry_min = 0, rx_max = 320, ry_max = 640, rconf = 1 / 2\<rparr>], [0])),
      class_map = [0 \<mapsto> ''num'', 1 \<mapsto> ''tun''],
      ocr_readtext = (\<lambda>f. Inr [''1234''])\<rparr>) [255, 216] =
      finish_detection (ocr_readtext (\<lparr>cv2_imdecode = (\<lambda>bs. Inr (Some [[0, 0], [0, 0 :: nat]])),
      compiled_car_model = (\<lambda>f. Inr (Dets
        [\<lparr>rx_min = 0, ry_min = 0, rx_max = 640, ry_max = 640, rconf = 81 / 100\<rparr>,
         \<lparr>rx_min = 700, ry_min = 0, rx_max = 650, ry_max = 10, rconf = 95 / 100\<rparr>])),
      cv2 = \<lparr>find_contours = (\<lambda>f. Inr ([] :: unit list)),
             min_area_rect_angle = (\<lambda>cs. Inr 0),
             warp_affine = (\<lambda>f a. Inr f)\<rparr>,
      plate_model_loaded = True,
      plate_target_height = 640,
      plate_target_width = 640,
      compiled_plate_model = (\<lambda>f. Inr ([\<lparr>rx_min = 0, ry_min = 0, rx_max = 320, ry_max = 640, rconf = 1 / 2\<rparr>], [0])),
      class_map = [0 \<mapsto> ''num'', 1 \<mapsto> ''tun''],
      ocr_readtext = (\<lambda>f. Inr [''1234''])\<rparr>)) (correct_rotation (cv2 (\<lparr>cv2_imdecode = (\<lambda>bs. Inr (Some [[0, 0], [0, 0 :: nat]])),
      compiled_car_model = (\<lambda>f. Inr (Dets
        [\<lparr>rx_min = 0, ry_min = 0, rx_max = 640, ry_max = 640, rconf = 81 / 100\<rparr>,
         \<lparr>rx_min = 700, ry_min = 0, rx_max = 650, ry_max = 10, rconf = 95 / 100\<rparr>])),
      cv2 = \<lparr>find_contours = (\<lambda>f. Inr ([] :: unit list)),
             min_area_rect_angle = (\<lambda>cs. Inr 0),
             warp_affine = (\<lambda>f a. Inr f)\<rparr>,
      plate_model_loaded = True,
      plate_target_height = 640,
      plate_target_width = 640,
      compiled_plate_model = (\<lambda>f. Inr ([\<lparr>rx_min = 0, ry_min = 0, rx_max = 320, ry_max = 640, rconf = 1 / 2\<rparr>], [0])),
      class_map = [0 \<mapsto> ''num'', 1 \<mapsto> ''tun''],
      ocr_readtext = (\<lambda>f. Inr [''1234''])\<rparr>)) [[0, 0], [0, 0 :: nat]]) (81 / 100)
        ([], 0, 0)"
    using example_servicer [of "([\<lparr>rx_min = 0, ry_min = 0, rx_max = 320, ry_max = 640, rconf = 1 / 2\<rparr>], [0])"] stage2_example_below
    by (intro perform_detection_reaches_finish
        [where image_bgr = "[[0, 0], [0, 0 :: nat]]" and m = "\<lparr>original_height = 2, original_width = 2, scale = 320, pad_top = 0, pad_left = 0\<rparr>" and mp = "\<lparr>original_h = 2, original_w = 2, plate_scale = 320, top_pad = 0, left_pad = 0\<rparr>" and detections = "[\<lparr>rx_min = 0, ry_min = 0, rx_max = 640, ry_max = 640, rconf = 81 / 100\<rparr>,
         \<lparr>rx_min = 700, ry_min = 0, rx_max = 650, ry_max = 10, rconf = 95 / 100\<rparr>]"
          and dets = "fst ([\<lparr>rx_min = 0, ry_min = 0, rx_max = 320, ry_max = 640, rconf = 1 / 2\<rparr>], [0])" and labels = "snd ([\<lparr>rx_min = 0, ry_min = 0, rx_max = 320, ry_max = 640, rconf = 1 / 2\<rparr>], [0])"]) simp_all
  then show ?thesis
    by (simp add: finish_detection_no_fields)
qed

text \<open>
  Claim C6, amended. No invocation of \<^verbatim>\<open>_perform_detection\<close> returns the diagnostic of an
  unrecognised pattern for the empty sequence. In an invocation that reaches the end of
  stage 2: when the list of retained detections is empty, the result is the empty plate
  string, the confidence of stage 1 and the message \<open>No characters detected in Stage 2\<close>,
  which \<^verbatim>\<open>DetectPlate\<close> reports as not successful; when the list is not empty and the
  sequence of its class names, ordered by \<open>x1\<close>, is none of the three patterns, the result is
  the plate string \<open>Pattern Error\<close> and a message that holds that sequence, also not
  successful. Both results are returned as values; nothing is raised.
\<close>

theorem empty_detections_end_before_assembly:
  "snd (snd (perform_detection self image_bytes)) \<noteq> Some ''Unrecognized plate pattern: []'' \<and>
   (cv2_imdecode self image_bytes = Inr (Some image_bgr) \<and>
    preprocess_image_car (frame_height image_bgr) (frame_width image_bgr)
      CAR_INPUT_HEIGHT CAR_INPUT_WIDTH = Inr m \<and>
    compiled_car_model self image_bgr = Inr (Dets detections) \<and>
    stage1 image_bgr m detections = Inr (Some best, c1) \<and>
    plate_model_loaded self \<and>
    preprocess_image_plate (frame_height (correct_rotation (cv2 self) best))
      (frame_width (correct_rotation (cv2 self) best))
      (plate_target_height self) (plate_target_width self) = Inr mp \<and>
    compiled_plate_model self (correct_rotation (cv2 self) best) = Inr (dets, labels) \<and>
    stage2 (class_map self) mp dets labels = Inr (rel, s, n) \<longrightarrow>
      (rel = [] \<longrightarrow>
         perform_detection self image_bytes = ([], c1, Some ''No characters detected in Stage 2'') \<and>
         \<not> success (DetectPlate self image_bytes)) \<and>
      (rel \<noteq> [] \<and>
       map class_name (sort_key x1 rel) \<noteq> [''num'', ''tun'', ''num''] \<and>
       map class_name (sort_key x1 rel) \<noteq> [''num'', ''tun''] \<and>
       map class_name (sort_key x1 rel) \<noteq> [''tun'', ''num''] \<longrightarrow>
         fst (perform_detection self image_bytes) = ''Pattern Error'' \<and>
         snd (snd (perform_detection self image_bytes)) =
           Some (''Unrecognized plate pattern: '' @
                 py_repr_list (map class_name (sort_key x1 rel))) \<and>
         \<not> success (DetectPlate self image_bytes)))"
proof (intro conjI impI)
  show "snd (snd (perform_detection self image_bytes)) \<noteq> Some ''Unrecognized plate pattern: []''"
    by (rule perform_detection_never_empty_pattern)
next
  assume h: "cv2_imdecode self image_bytes = Inr (Some image_bgr) \<and>
    preprocess_image_car (frame_height image_bgr) (frame_width image_bgr)
      CAR_INPUT_HEIGHT CAR_INPUT_WIDTH = Inr m \<and>
    compiled_car_model self image_bgr = Inr (Dets detections) \<and>
    stage1 image_bgr m detections = Inr (Some best, c1) \<and>
    plate_model_loaded self \<and>
    preprocess_image_plate (frame_height (correct_rotation (cv2 self) best))
      (frame_width (correct_rotation (cv2 self) best))
      (plate_target_height self) (plate_target_width self) = Inr mp \<and>
    compiled_plate_model self (correct_rotation (cv2 self) best) = Inr (dets, labels) \<and>
    stage2 (class_map self) mp dets labels = Inr (rel, s, n)"
  have reach: "perform_detection self image_bytes =
      finish_detection (ocr_readtext self) (correct_rotation (cv2 self) best) c1 (rel, s, n)"
    using h
    by (intro perform_detection_reaches_finish
        [where image_bgr = image_bgr and m = m and mp = mp and detections = detections
          and dets = dets and labels = labels]) simp_all
  {
    assume "rel = []"
    then show r: "perform_detection self image_bytes =
        ([], c1, Some ''No characters detected in Stage 2'')"
      by (simp add: reach finish_detection_no_fields)
    show "\<not> success (DetectPlate self image_bytes)"
      by (rule DetectPlate_error_not_success) (simp add: r)
  }
  {
    assume u: "rel \<noteq> [] \<and>
       map class_name (sort_key x1 rel) \<noteq> [''num'', ''tun'', ''num''] \<and>
       map class_name (sort_key x1 rel) \<noteq> [''num'', ''tun''] \<and>
       map class_name (sort_key x1 rel) \<noteq> [''tun'', ''num'']"
    then have r: "fst (perform_detection self image_bytes) = ''Pattern Error'' \<and>
        snd (snd (perform_detection self image_bytes)) =
          Some (''Unrecognized plate pattern: '' @ py_repr_list (map class_name (sort_key x1 rel)))"
      using finish_detection_unrecognized
        [of rel "ocr_readtext self" "correct_rotation (cv2 self) best" c1 s n]
      by (simp add: reach)
    then show "fst (perform_detection self image_bytes) = ''Pattern Error''"
      by simp
    from r show "snd (snd (perform_detection self image_bytes)) =
        Some (''Unrecognized plate pattern: '' @ py_repr_list (map class_name (sort_key x1 rel)))"
      by simp
    show "\<not> success (DetectPlate self image_bytes)"
      by (rule DetectPlate_error_not_success) (simp add: r)
  }
qed

theorem empty_detections_end_before_assembly_witness:
  "perform_detection (\<lparr>cv2_imdecode = (\<lambda>bs. Inr (Some [[0, 0], [0, 0 :: nat]])),
      compiled_car_model = (\<lambda>f. Inr (Dets
        [\<lparr>rx_min = 0, ry_min = 0, rx_max = 640, ry_max = 640, rconf = 81 / 100\<rparr>,
         \<lparr>rx_min = 700, ry_min = 0, rx_max = 650, ry_max = 10, rconf = 95 / 100\<rparr>])),
      cv2 = \<lparr>find_contours = (\<lambda>f. Inr ([] :: unit list)),
             min_area_rect_angle = (\<lambda>cs. Inr 0),
             warp_affine = (\<lambda>f a. Inr f)\<rparr>,
      plate_model_loaded = True,
      plate_target_height = 640,
      plate_target_width = 640,
      compiled_plate_model = (\<lambda>f. Inr ([\<lparr>rx_min = 0, ry_min = 0, rx_max = 320, ry_max = 640, rconf = 1 / 2\<rparr>], [0])),
      class_map = [0 \<mapsto> ''num'', 1 \<mapsto> ''tun''],
      ocr_readtext = (\<lambda>f. Inr [''1234''])\<rparr>) [255, 216]
     = ([], 81 / 100, Some ''No characters detected in Stage 2'') \<and>
   \<not> success (DetectPlate (\<lparr>cv2_imdecode = (\<lambda>bs. Inr (Some [[0, 0], [0, 0 :: nat]])),
      compiled_car_model = (\<lambda>f. Inr (Dets
        [\<lparr>rx_min = 0, ry_min = 0, rx_max = 640, ry_max = 640, rconf = 81 / 100\<rparr>,
         \<lparr>rx_min = 700, ry_min = 0, rx_max = 650, ry_max = 10, rconf = 95 / 100\<rparr>])),
      cv2 = \<lparr>find_contours = (\<lambda>f. Inr ([] :: unit list)),
             min_area_rect_angle = (\<lambda>cs. Inr 0),
             warp_affine = (\<lambda>f a. Inr f)\<rparr>,
      plate_model_loaded = True,
      plate_target_height = 640,
      plate_target_width = 640,
      compiled_plate_model = (\<lambda>f. Inr ([\<lparr>rx_min = 0, ry_min = 0, rx_max = 320, ry_max = 640, rconf = 1 / 2\<rparr>], [0])),
      class_map = [0 \<mapsto> ''num'', 1 \<mapsto> ''tun''],
      ocr_readtext = (\<lambda>f. Inr [''1234''])\<rparr>) [255, 216]) \<and>
   fst (perform_detection (\<lparr>cv2_imdecode = (\<lambda>bs. Inr (Some [[0, 0], [0, 0 :: nat]])),
      compiled_car_model = (\<lambda>f. Inr (Dets
        [\<lparr>rx_min = 0, ry_min = 0, rx_max = 640, ry_max = 640, rconf = 81 / 100\<rparr>,
         \<lparr>rx_min = 700, ry_min = 0, rx_max = 650, ry_max = 10, rconf = 95 / 100\<rparr>])),
      cv2 = \<lparr>find_contours = (\<lambda>f. Inr ([] :: unit list)),
             min_area_rect_angle = (\<lambda>cs. Inr 0),
             warp_affine = (\<lambda>f a. Inr f)\<rparr>,
      plate_model_loaded = True,
      plate_target_height = 640,
      plate_target_width = 640,
      compiled_plate_model = (\<lambda>f. Inr ([\<lparr>rx_min = 0, ry_min = 0, rx_max = 320, ry_max = 640, rconf = 9 / 10\<rparr>], [1])),
      class_map = [0 \<mapsto> ''num'', 1 \<mapsto> ''tun''],
      ocr_readtext = (\<lambda>f. Inr [''1234''])\<rparr>) [255, 216]) = ''Pattern Error'' \<and>
   snd (snd (perform_detection (\<lparr>cv2_imdecode = (\<lambda>bs. Inr (Some [[0, 0], [0, 0 :: nat]])),
      compiled_car_model = (\<lambda>f. Inr (Dets
        [\<lparr>rx_min = 0, ry_min = 0, rx_max = 640, ry_max = 640, rconf = 81 / 100\<rparr>,
         \<lparr>rx_min = 700, ry_min = 0, rx_max = 650, ry_max = 10, rconf = 95 / 100\<rparr>])),
      cv2 = \<lparr>find_contours = (\<lambda>f. Inr ([] :: unit list)),
             min_area_rect_angle = (\<lambda>cs. Inr 0),
             warp_affine = (\<lambda>f a. Inr f)\<rparr>,
      plate_model_loaded = True,
      plate_target_height = 640,
      plate_target_width = 640,
      compiled_plate_model = (\<lambda>f. Inr ([\<lparr>rx_min = 0, ry_min = 0, rx_max = 320, ry_max = 640, rconf = 9 / 10\<rparr>], [1])),
      class_map = [0 \<mapsto> ''num'', 1 \<mapsto> ''tun''],
      ocr_readtext = (\<lambda>f. Inr [''1234''])\<rparr>) [255, 216])) = Some (''Unrecognized plate pattern: ['' @ [CHR 0x27] @ ''tun'' @ [CHR 0x27] @ '']'') \<and>
   \<not> success (DetectPlate (\<lparr>cv2_imdecode = (\<lambda>bs. Inr (Some [[0, 0], [0, 0 :: nat]])),
      compiled_car_model = (\<lambda>f. Inr (Dets
        [\<lparr>rx_min = 0, ry_min = 0, rx_max = 640, ry_max = 640, rconf = 81 / 100\<rparr>,
         \<lparr>rx_min = 700, ry_min = 0, rx_max = 650, ry_max = 10, rconf = 95 / 100\<rparr>])),
      cv2 = \<lparr>find_contours = (\<lambda>f. Inr ([] :: unit list)),
             min_area_rect_angle = (\<lambda>cs. Inr 0),
             warp_affine = (\<lambda>f a. Inr f)\<rparr>,
      plate_model_loaded = True,
      plate_target_height = 640,
      plate_target_width = 640,
      compiled_plate_model = (\<lambda>f. Inr ([\<lparr>rx_min = 0, ry_min = 0, rx_max = 320, ry_max = 640, rconf = 9 / 10\<rparr>], [1])),
      class_map = [0 \<mapsto> ''num'', 1 \<mapsto> ''tun''],
      ocr_readtext = (\<lambda>f. Inr [''1234''])\<rparr>) [255, 216])"
proof -
  have h1: "stage2 (class_map (\<lparr>cv2_imdecode = (\<lambda>bs. Inr (Some [[0, 0], [0, 0 :: nat]])),
      compiled_car_model = (\<lambda>f. Inr (Dets
        [\<lparr>rx_min = 0, ry_min = 0, rx_max = 640, ry_max = 640, rconf = 81 / 100\<rparr>,
         \<lparr>rx_min = 700, ry_min = 0, rx_max = 650, ry_max = 10, rconf = 95 / 100\<rparr>])),
      cv2 = \<lparr>find_contours = (\<lambda>f. Inr ([] :: unit list)),
             min_area_rect_angle = (\<lambda>cs. Inr 0),
             warp_affine = (\<lambda>f a. Inr f)\<rparr>,
      plate_model_loaded = True,
      plate_target_height = 640,
      plate_target_width = 640,
      compiled_plate_model = (\<lambda>f. Inr ([\<lparr>rx_min = 0, ry_min = 0, rx_max = 320, ry_max = 640, rconf = 1 / 2\<rparr>], [0])),
      class_map = [0 \<mapsto> ''num'', 1 \<mapsto> ''tun''],
      ocr_readtext = (\<lambda>f. Inr [''1234''])\<rparr>)) \<lparr>original_h = 2, original_w = 2, plate_scale = 320, top_pad = 0, left_pad = 0\<rparr> (fst ([\<lparr>rx_min = 0, ry_min = 0, rx_max = 320, ry_max = 640, rconf = 1 / 2\<rparr>], [0])) (snd ([\<lparr>rx_min = 0, ry_min = 0, rx_max = 320, ry_max = 640, rconf = 1 / 2\<rparr>], [0])) = Inr ([], 0, 0)"
    using stage2_example_below by simp
  have a: "perform_detection (\<lparr>cv2_imdecode = (\<lambda>bs. Inr (Some [[0, 0], [0, 0 :: nat]])),
      compiled_car_model = (\<lambda>f. Inr (Dets
        [\<lparr>rx_min = 0, ry_min = 0, rx_max = 640, ry_max = 640, rconf = 81 / 100\<rparr>,
         \<lparr>rx_min = 700, ry_min = 0, rx_max = 650, ry_max = 10, rconf = 95 / 100\<rparr>])),
      cv2 = \<lparr>find_contours = (\<lambda>f. Inr ([] :: unit list)),
             min_area_rect_angle = (\<lambda>cs. Inr 0),
             warp_affine = (\<lambda>f a. Inr f)\<rparr>,
      plate_model_loaded = True,
      plate_target_height = 640,
      plate_target_width = 640,
      compiled_plate_model = (\<lambda>f. Inr ([\<lparr>rx_min = 0, ry_min = 0, rx_max = 320, ry_max = 640, rconf = 1 / 2\<rparr>], [0])),
      class_map = [0 \<mapsto> ''num'', 1 \<mapsto> ''tun''],
      ocr_readtext = (\<lambda>f. Inr [''1234''])\<rparr>) [255, 216]
       = ([], 81 / 100, Some ''No characters detected in Stage 2'') \<and>
     \<not> success (DetectPlate (\<lparr>cv2_imdecode = (\<lambda>bs. Inr (Some [[0, 0], [0, 0 :: nat]])),
      compiled_car_model = (\<lambda>f. Inr (Dets
        [\<lparr>rx_min = 0, ry_min = 0, rx_max = 640, ry_max = 640, rconf = 81 / 100\<rparr>,
         \<lparr>rx_min = 700, ry_min = 0, rx_max = 650, ry_max = 10, rconf = 95 / 100\<rparr>])),
      cv2 = \<lparr>find_contours = (\<lambda>f. Inr ([] :: unit list)),
             min_area_rect_angle = (\<lambda>cs. Inr 0),
             warp_affine = (\<lambda>f a. Inr f)\<rparr>,
      plate_model_loaded = True,
      plate_target_height = 640,
      plate_target_width = 640,
      compiled_plate_model = (\<lambda>f. Inr ([\<lparr>rx_min = 0, ry_min = 0, rx_max = 320, ry_max = 640, rconf = 1 / 2\<rparr>], [0])),
      class_map = [0 \<mapsto> ''num'', 1 \<mapsto> ''tun''],
      ocr_readtext = (\<lambda>f. Inr [''1234''])\<rparr>) [255, 216])"
    using empty_detections_end_before_assembly
      [of "\<lparr>cv2_imdecode = (\<lambda>bs. Inr (Some [[0, 0], [0, 0 :: nat]])),
      compiled_car_model = (\<lambda>f. Inr (Dets
        [\<lparr>rx_min = 0, ry_min = 0, rx_max = 640, ry_max = 640, rconf = 81 / 100\<rparr>,
         \<lparr>rx_min = 700, ry_min = 0, rx_max = 650, ry_max = 10, rconf = 95 / 100\<rparr>])),
      cv2 = \<lparr>find_contours = (\<lambda>f. Inr ([] :: unit list)),
             min_area_rect_angle = (\<lambda>cs. Inr 0),
             warp_affine = (\<lambda>f a. Inr f)\<rparr>,
      plate_model_loaded = True,
      plate_target_height = 640,
      plate_target_width = 640,
      compiled_plate_model = (\<lambda>f. Inr ([\<lparr>rx_min = 0, ry_min = 0, rx_max = 320, ry_max = 640, rconf = 1 / 2\<rparr>], [0])),
      class_map = [0 \<mapsto> ''num'', 1 \<mapsto> ''tun''],
      ocr_readtext = (\<lambda>f. Inr [''1234''])\<rparr>" "[255, 216]" "[[0, 0], [0, 0 :: nat]]" "\<lparr>original_height = 2, original_width = 2, scale = 320, pad_top = 0, pad_left = 0\<rparr>" "[\<lparr>rx_min = 0, ry_min = 0, rx_max = 640, ry_max = 640, rconf = 81 / 100\<rparr>,
         \<lparr>rx_min = 700, ry_min = 0, rx_max = 650, ry_max = 10, rconf = 95 / 100\<rparr>]" "[[0, 0], [0, 0 :: nat]]" "81 / 100" "\<lparr>original_h = 2, original_w = 2, plate_scale = 320, top_pad = 0, left_pad = 0\<rparr>"
        "fst ([\<lparr>rx_min = 0, ry_min = 0, rx_max = 320, ry_max = 640, rconf = 1 / 2\<rparr>], [0])" "snd ([\<lparr>rx_min = 0, ry_min = 0, rx_max = 320, ry_max = 640, rconf = 1 / 2\<rparr>], [0])" "[]" 0 0]
      example_servicer [of "([\<lparr>rx_min = 0, ry_min = 0, rx_max = 320, ry_max = 640, rconf = 1 / 2\<rparr>], [0])"] h1
    by simp
  have h2: "stage2 (class_map (\<lparr>cv2_imdecode = (\<lambda>bs. Inr (Some [[0, 0], [0, 0 :: nat]])),
      compiled_car_model = (\<lambda>f. Inr (Dets
        [\<lparr>rx_min = 0, ry_min = 0, rx_max = 640, ry_max = 640, rconf = 81 / 100\<rparr>,
         \<lparr>rx_min = 700, ry_min = 0, rx_max = 650, ry_max = 10, rconf = 95 / 100\<rparr>])),
      cv2 = \<lparr>find_contours = (\<lambda>f. Inr ([] :: unit list)),
             min_area_rect_angle = (\<lambda>cs. Inr 0),
             warp_affine = (\<lambda>f a. Inr f)\<rparr>,
      plate_model_loaded = True,
      plate_target_height = 640,
      plate_target_width = 640,
      compiled_plate_model = (\<lambda>f. Inr ([\<lparr>rx_min = 0, ry_min = 0, rx_max = 320, ry_max = 640, rconf = 9 / 10\<rparr>], [1])),
      class_map = [0 \<mapsto> ''num'', 1 \<mapsto> ''tun''],
      ocr_readtext = (\<lambda>f. Inr [''1234''])\<rparr>)) \<lparr>original_h = 2, original_w = 2, plate_scale = 320, top_pad = 0, left_pad = 0\<rparr> (fst ([\<lparr>rx_min = 0, ry_min = 0, rx_max = 320, ry_max = 640, rconf = 9 / 10\<rparr>], [1])) (snd ([\<lparr>rx_min = 0, ry_min = 0, rx_max = 320, ry_max = 640, rconf = 9 / 10\<rparr>], [1])) = Inr ([\<lparr>x1 = 0, y1 = 0, x2 = 1, y2 = 2, class_name = ''tun'', confidence = 9 / 10,
            ocr_text = None\<rparr>], 9 / 10, 1)"
    using stage2_example_tun by simp
  have seq: "map class_name (sort_key x1 [\<lparr>x1 = 0, y1 = 0, x2 = 1, y2 = 2, class_name = ''tun'', confidence = 9 / 10,
            ocr_text = None\<rparr>]) = [''tun'']"
    by simp
  have msg: "''Unrecognized plate pattern: '' @ py_repr_list [''tun''] = ''Unrecognized plate pattern: ['' @ [CHR 0x27] @ ''tun'' @ [CHR 0x27] @ '']''"
    by (simp add: py_repr_list_def py_repr_str_def)
  have b: "fst (perform_detection (\<lparr>cv2_imdecode = (\<lambda>bs. Inr (Some [[0, 0], [0, 0 :: nat]])),
      compiled_car_model = (\<lambda>f. Inr (Dets
        [\<lparr>rx_min = 0, ry_min = 0, rx_max = 640, ry_max = 640, rconf = 81 / 100\<rparr>,
         \<lparr>rx_min = 700, ry_min = 0, rx_max = 650, ry_max = 10, rconf = 95 / 100\<rparr>])),
      cv2 = \<lparr>find_contours = (\<lambda>f. Inr ([] :: unit list)),
             min_area_rect_angle = (\<lambda>cs. Inr 0),
             warp_affine = (\<lambda>f a. Inr f)\<rparr>,
      plate_model_loaded = True,
      plate_target_height = 640,
      plate_target_width = 640,
      compiled_plate_model = (\<lambda>f. Inr ([\<lparr>rx_min = 0, ry_min = 0, rx_max = 320, ry_max = 640, rconf = 9 / 10\<rparr>], [1])),
      class_map = [0 \<mapsto> ''num'', 1 \<mapsto> ''tun''],
      ocr_readtext = (\<lambda>f. Inr [''1234''])\<rparr>) [255, 216]) = ''Pattern Error'' \<and>
     snd (snd (perform_detection (\<lparr>cv2_imdecode = (\<lambda>bs. Inr (Some [[0, 0], [0, 0 :: nat]])),
      compiled_car_model = (\<lambda>f. Inr (Dets
        [\<lparr>rx_min = 0, ry_min = 0, rx_max = 640, ry_max = 640, rconf = 81 / 100\<rparr>,
         \<lparr>rx_min = 700, ry_min = 0, rx_max = 650, ry_max = 10, rconf = 95 / 100\<rparr>])),
      cv2 = \<lparr>find_contours = (\<lambda>f. Inr ([] :: unit list)),
             min_area_rect_angle = (\<lambda>cs. Inr 0),
             warp_affine = (\<lambda>f a. Inr f)\<rparr>,
      plate_model_loaded = True,
      plate_target_height = 640,
      plate_target_width = 640,
      compiled_plate_model = (\<lambda>f. Inr ([\<lparr>rx_min = 0, ry_min = 0, rx_max = 320, ry_max = 640, rconf = 9 / 10\<rparr>], [1])),
      class_map = [0 \<mapsto> ''num'', 1 \<mapsto> ''tun''],
      ocr_readtext = (\<lambda>f. Inr [''1234''])\<rparr>) [255, 216])) = Some (''Unrecognized plate pattern: ['' @ [CHR 0x27] @ ''tun'' @ [CHR 0x27] @ '']'') \<and>
     \<not> success (DetectPlate (\<lparr>cv2_imdecode = (\<lambda>bs. Inr (Some [[0, 0], [0, 0 :: nat]])),
      compiled_car_model = (\<lambda>f. Inr (Dets
        [\<lparr>rx_min = 0, ry_min = 0, rx_max = 640, ry_max = 640, rconf = 81 / 100\<rparr>,
         \<lparr>rx_min = 700, ry_min = 0, rx_max = 650, ry_max = 10, rconf = 95 / 100\<rparr>])),
      cv2 = \<lparr>find_contours = (\<lambda>f. Inr ([] :: unit list)),
             min_area_rect_angle = (\<lambda>cs. Inr 0),
             warp_affine = (\<lambda>f a. Inr f)\<rparr>,
      plate_model_loaded = True,
      plate_target_height = 640,
      plate_target_width = 640,
      compiled_plate_model = (\<lambda>f. Inr ([\<lparr>rx_min = 0, ry_min = 0, rx_max = 320, ry_max = 640, rconf = 9 / 10\<rparr>], [1])),
      class_map = [0 \<mapsto> ''num'', 1 \<mapsto> ''tun''],
      ocr_readtext = (\<lambda>f. Inr [''1234''])\<rparr>) [255, 216])"
    using empty_detections_end_before_assembly
      [of "\<lparr>cv2_imdecode = (\<lambda>bs. Inr (Some [[0, 0], [0, 0 :: nat]])),
      compiled_car_model = (\<lambda>f. Inr (Dets
        [\<lparr>rx_min = 0, ry_min = 0, rx_max = 640, ry_max = 640, rconf = 81 / 100\<rparr>,
         \<lparr>rx_min = 700, ry_min = 0, rx_max = 650, ry_max = 10, rconf = 95 / 100\<rparr>])),
      cv2 = \<lparr>find_contours = (\<lambda>f. Inr ([] :: unit list)),
             min_area_rect_angle = (\<lambda>cs. Inr 0),
             warp_affine = (\<lambda>f a. Inr f)\<rparr>,
      plate_model_loaded = True,
      plate_target_height = 640,
      plate_target_width = 640,
      compiled_plate_model = (\<lambda>f. Inr ([\<lparr>rx_min = 0, ry_min = 0, rx_max = 320, ry_max = 640, rconf = 9 / 10\<rparr>], [1])),
      class_map = [0 \<mapsto> ''num'', 1 \<mapsto> ''tun''],
      ocr_readtext = (\<lambda>f. Inr [''1234''])\<rparr>" "[255, 216]" "[[0, 0], [0, 0 :: nat]]" "\<lparr>original_height = 2, original_width = 2, scale = 320, pad_top = 0, pad_left = 0\<rparr>" "[\<lparr>rx_min = 0, ry_min = 0, rx_max = 640, ry_max = 640, rconf = 81 / 100\<rparr>,
         \<lparr>rx_min = 700, ry_min = 0, rx_max = 650, ry_max = 10, rconf = 95 / 100\<rparr>]" "[[0, 0], [0, 0 :: nat]]" "81 / 100" "\<lparr>original_h = 2, original_w = 2, plate_scale = 320, top_pad = 0, left_pad = 0\<rparr>"
        "fst ([\<lparr>rx_min = 0, ry_min = 0, rx_max = 320, ry_max = 640, rconf = 9 / 10\<rparr>], [1])" "snd ([\<lparr>rx_min = 0, ry_min = 0, rx_max = 320, ry_max = 640, rconf = 9 / 10\<rparr>], [1])" "[\<lparr>x1 = 0, y1 = 0, x2 = 1, y2 = 2, class_name = ''tun'', confidence = 9 / 10,
            ocr_text = None\<rparr>]" "9 / 10" 1]
      example_servicer [of "([\<lparr>rx_min = 0, ry_min = 0, rx_max = 320, ry_max = 640, rconf = 9 / 10\<rparr>], [1])"] h2
    unfolding seq msg by simp
  from a b show ?thesis by blast
qed

section \<open>Rotation correction never fails\<close>

text \<open>Every result of \<^verbatim>\<open>detect_and_correct_rotation\<close> is the image it was given or the
  image that \<^verbatim>\<open>cv2.warpAffine\<close> returned for an angle outside the dead zone.\<close>

lemma rotation_outcomes:
  "detect_and_correct_rotation ops plate_img = plate_img \<or>
   (\<exists>img cs a rotated.
      plate_img = Some img \<and> find_contours ops img = Inr cs \<and>
      min_area_rect_angle ops cs = Inr a \<and> ANGLE_THRESHOLD \<le> \<bar>normalize_angle a\<bar> \<and>
      warp_affine ops img (normalize_angle a) = Inr rotated \<and>
      detect_and_correct_rotation ops plate_img = Some rotated)"
  by (auto simp: detect_and_correct_rotation_def rotation_body_def bind_exc_def Let_def
      split: option.splits sum.splits if_splits)

text \<open>
  Claim C7. \<^verbatim>\<open>detect_and_correct_rotation\<close> returns the image it was given when the image is
  \<^verbatim>\<open>None\<close> or has size zero, when no contour is found, when the normalised angle is within
  two degrees of zero, and when any step of the body raises. The function is total in the
  model and its result is an image: the handler of the source catches every exception of the
  body, so none leaves the function.
\<close>

theorem rotation_keeps_original:
  assumes "plate_img = None \<or>
           (\<exists>img. plate_img = Some img \<and>
              (frame_size img = 0 \<or> find_contours ops img = Inr [] \<or>
               (\<exists>cs a. find_contours ops img = Inr cs \<and> min_area_rect_angle ops cs = Inr a \<and>
                  \<bar>normalize_angle a\<bar> < ANGLE_THRESHOLD))) \<or>
           (\<exists>e. rotation_body ops plate_img = Inl e)"
  shows "detect_and_correct_rotation ops plate_img = plate_img"
  using assms
  by (auto simp: detect_and_correct_rotation_def rotation_body_def bind_exc_def Let_def
      split: option.splits sum.splits if_splits)

theorem rotation_keeps_original_witness:
  "detect_and_correct_rotation
     \<lparr>find_contours = (\<lambda>f. Inr [3 :: nat]), min_area_rect_angle = (\<lambda>cs. Inr (- 177 / 2)),
      warp_affine = (\<lambda>f a. Inr [])\<rparr> (Some [[0, 0], [0, 0 :: nat]])
     = Some [[0, 0], [0, 0]] \<and>
   detect_and_correct_rotation
     \<lparr>find_contours = (\<lambda>f. Inr [3 :: nat]), min_area_rect_angle = (\<lambda>cs. Inr 10),
      warp_affine = (\<lambda>f a. Inl cv2_error)\<rparr> (Some [[0, 0], [0, 0 :: nat]])
     = Some [[0, 0], [0, 0]] \<and>
   detect_and_correct_rotation
     \<lparr>find_contours = (\<lambda>f. Inr [3 :: nat]), min_area_rect_angle = (\<lambda>cs. Inr 10),
      warp_affine = (\<lambda>f a. Inr [])\<rparr> (None :: nat frame option)
     = None"
proof -
  let ?img = "[[0, 0], [0, 0 :: nat]]"
  let ?ops1 = "\<lparr>find_contours = (\<lambda>f :: nat frame. Inr [3 :: nat]),
      min_area_rect_angle = (\<lambda>cs. Inr (- 177 / 2)), warp_affine = (\<lambda>f a. Inr [])\<rparr>"
  let ?ops2 = "\<lparr>find_contours = (\<lambda>f :: nat frame. Inr [3 :: nat]),
      min_area_rect_angle = (\<lambda>cs. Inr 10), warp_affine = (\<lambda>f a. Inl cv2_error)\<rparr>"
  let ?ops3 = "\<lparr>find_contours = (\<lambda>f :: nat frame. Inr [3 :: nat]),
      min_area_rect_angle = (\<lambda>cs. Inr 10), warp_affine = (\<lambda>f a. Inr [])\<rparr>"
  have dead_zone: "\<exists>cs a. find_contours ?ops1 ?img = Inr cs \<and>
      min_area_rect_angle ?ops1 cs = Inr a \<and> \<bar>normalize_angle a\<bar> < ANGLE_THRESHOLD"
    by (simp add: normalize_angle_def ANGLE_THRESHOLD_def)
  have raised: "\<exists>e. rotation_body ?ops2 (Some ?img) = Inl e"
    by (simp add: rotation_body_def bind_exc_def frame_size_def frame_height_def frame_width_def
        normalize_angle_def ANGLE_THRESHOLD_def)
  have a: "detect_and_correct_rotation ?ops1 (Some ?img) = Some ?img"
    by (rule rotation_keeps_original) (use dead_zone in blast)
  have b: "detect_and_correct_rotation ?ops2 (Some ?img) = Some ?img"
    by (rule rotation_keeps_original) (use raised in blast)
  have c: "detect_and_correct_rotation ?ops3 (None :: nat frame option) = None"
    by (rule rotation_keeps_original) simp
  from a b c show ?thesis by blast
qed

section \<open>The label of an unknown class\<close>

lemma py_str_int_7: "py_str_int 7 = ''7''"
  by (simp add: py_str_int_def nat_digits.simps digit_char_def)

text \<open>
  Claim C9, as stated, fails. For the class id 7 and an empty label map the document service
  resolves the name \<open>unknown_id_7\<close> and the plate service the name \<open>Label_7\<close>; neither is
  the \<open>unknown_7\<close> of the specification.
\<close>

theorem unknown_label_differs:
  "cin_resolve_class_name Map.empty 7 = ''unknown_id_7'' \<and>
   plate_class_name Map.empty 7 = ''Label_7'' \<and>
   spec_unknown_label 7 = ''unknown_7'' \<and>
   cin_resolve_class_name Map.empty 7 \<noteq> spec_unknown_label 7 \<and>
   plate_class_name Map.empty 7 \<noteq> spec_unknown_label 7"
  by (simp add: cin_resolve_class_name_def plate_class_name_def spec_unknown_label_def py_str_int_7)

text \<open>
  Claim C9, amended. For a class id that is absent from the label map the resolved name is a
  placeholder that ends with the id in decimal: \<open>unknown_id_<id>\<close> in the document service,
  \<open>Label_<id>\<close> in the plate service. Neither lookup fails.
\<close>

theorem fallback_labels:
  "cm lid = None \<Longrightarrow>
     cin_resolve_class_name cm lid = ''unknown_id_'' @ py_str_int lid \<and>
     plate_class_name cm lid = ''Label_'' @ py_str_int lid"
  by (simp add: cin_resolve_class_name_def plate_class_name_def)

theorem fallback_labels_witness:
  "[0 \<mapsto> ''num'', 1 \<mapsto> ''tun''] (7 :: int) = None \<and>
   cin_resolve_class_name [0 \<mapsto> ''num'', 1 \<mapsto> ''tun''] 7 = ''unknown_id_7'' \<and>
   plate_class_name [0 \<mapsto> ''num'', 1 \<mapsto> ''tun''] 7 = ''Label_7''"
proof -
  have h: "[0 \<mapsto> ''num'', 1 \<mapsto> ''tun''] (7 :: int) = None" by simp
  from fallback_labels [of "[0 \<mapsto> ''num'', 1 \<mapsto> ''tun'']" 7] h show ?thesis
    by (simp add: py_str_int_7)
qed

text \<open>In the plate service a placeholder is neither \<open>num\<close> nor \<open>tun\<close>, so stage 2 never
  retains a detection of an unknown class.\<close>

lemma placeholder_not_allowed:
  "cm lid = None \<Longrightarrow> plate_class_name cm lid \<notin> set [''num'', ''tun'']"
  by (simp add: plate_class_name_def)

section \<open>The response of the document service\<close>











end
